theory Spec2Isabelle
  imports Complex_Main
begin

section \<open>The store and its rows\<close>

text \<open>
  The order controller (\<^verbatim>\<open>src/controllers/orderController.ts\<close>) works on three tables
  through Prisma: products, discount codes and orders (with their items). A JavaScript
  \<^verbatim>\<open>Number\<close> holding money is modelled as an exact \<^typ>\<open>real\<close>; quantities, stock
  and usage counters are integers; a \<^verbatim>\<open>Date\<close> is the record of what its getters
  return.
\<close>

record JsDate =
  getTime :: int
  getFullYear :: nat
  getMonth :: nat
  getDate :: nat

record Product =
  price :: real
  active :: bool
  stock :: int

datatype DiscountType = PERCENTAGE | FIXED_AMOUNT

text \<open>
  \<^verbatim>\<open>value\<close>, \<^verbatim>\<open>minAmount\<close> and \<^verbatim>\<open>maxDiscount\<close> are decimals (the
  controller converts them with \<^verbatim>\<open>Number(...)\<close>), \<^verbatim>\<open>maxUses\<close> and
  \<^verbatim>\<open>usedCount\<close> are plain integers; an optional column is \<^verbatim>\<open>null\<close> when unset.
\<close>

record DiscountCode =
  dc_active :: bool
  dc_type :: DiscountType
  dc_value :: real
  minAmount :: "real option"
  maxDiscount :: "real option"
  maxUses :: "int option"
  usedCount :: int
  validFrom :: int
  validUntil :: int

text \<open>An item of the request body, and the item row built from it.\<close>

record CartItem =
  productId :: string
  quantity :: int

record OrderItem = CartItem +
  item_price :: real
  item_total :: real

text \<open>
  Modelled from the spec: the delivery status enumeration of the Prisma schema, which is
  not among the sources; a new order starts as \<open>PENDING\<close>.
\<close>

datatype DeliveryStatus = PENDING | PROCESSING | SHIPPED | DELIVERED | CANCELLED

record Order =
  orderId :: string
  orderNumber :: string
  userId :: string
  items :: "OrderItem list"
  subtotal :: real
  discount :: real
  shipping :: real
  tax :: real
  total :: real
  deliveryStatus :: DeliveryStatus
  orderNotes :: "string option"
  discountCode :: "string option"
  trackingNumber :: "string option"
  estimatedDelivery :: "JsDate option"
  deliveredAt :: "JsDate option"

record Db =
  products :: "string \<rightharpoonup> Product"
  discountCodes :: "string \<rightharpoonup> DiscountCode"
  orders :: "Order list"

text \<open>
  A handler ends a request either by sending a response itself
  (\<^verbatim>\<open>res.status(code).json({message, ...})\<close>) or by an exception of a Prisma call that
  nothing catches and that \<^verbatim>\<open>asyncHandler\<close> hands to the error middleware.
\<close>

datatype failure = Rejected nat string | Thrown

text \<open>
  The writes of the handlers: \<^verbatim>\<open>prisma.order.create\<close>, \<^verbatim>\<open>prisma.order.update\<close>, the
  \<^verbatim>\<open>prisma.product.update\<close> of the \<open>i\<close>-th item of a stock loop, and
  \<^verbatim>\<open>prisma.discountCode.update\<close>. The environment decides which of them the store
  refuses; no handler catches a refusal.
\<close>

datatype DbWrite = OrderCreate | OrderUpdate | ProductUpdate nat | DiscountCodeUpdate

text \<open>What \<^verbatim>\<open>new Date(string)\<close> gives: a date, or the \<^verbatim>\<open>Invalid Date\<close> object.\<close>

datatype DateValue = InvalidDate | ValidDate JsDate

text \<open>
  What a call of \<^verbatim>\<open>createOrder\<close> reads from outside the store: the writes that
  fail, the \<^verbatim>\<open>new Date()\<close> of the discount check, the \<^verbatim>\<open>new Date()\<close> and the
  \<^verbatim>\<open>Math.floor(Math.random() * 10000)\<close> of each round of the order number loop, and
  the key the store gives the new order row.
\<close>

record Env =
  failing :: "DbWrite set"
  now :: JsDate
  dates :: "nat \<Rightarrow> JsDate"
  draws :: "nat \<Rightarrow> nat"
  newId :: string

record Caller =
  callerId :: string
  role :: string

section \<open>JavaScript helpers\<close>

text \<open>A string from the request is truthy when it is present and not empty.\<close>

fun truthy :: "string option \<Rightarrow> bool" where
  "truthy None = False"
| "truthy (Some s) = (s \<noteq> [])"

definition digit :: "nat \<Rightarrow> char" where
  "digit d = char_of (48 + d)"

fun toString :: "nat \<Rightarrow> string" where
  "toString n = (if n < 10 then [digit n] else toString (n div 10) @ [digit (n mod 10)])"

declare toString.simps [simp del]

definition padStart :: "nat \<Rightarrow> char \<Rightarrow> string \<Rightarrow> string" where
  "padStart n c s = replicate (n - length s) c @ s"

text \<open>\<^verbatim>\<open>s.slice(-n)\<close>: the last \<open>n\<close> characters, the whole string when it is shorter.\<close>

definition sliceLast :: "nat \<Rightarrow> string \<Rightarrow> string" where
  "sliceLast n s = drop (length s - n) s"

section \<open>The order number\<close>

definition formatOrderNumber :: "JsDate \<Rightarrow> nat \<Rightarrow> string" where
  "formatOrderNumber d randomNum =
     ''CHE'' @ sliceLast 2 (toString (getFullYear d))
       @ padStart 2 (CHR ''0'') (toString (getMonth d + 1))
       @ padStart 2 (CHR ''0'') (toString (getDate d))
       @ padStart 4 (CHR ''0'') (toString randomNum)"

text \<open>
  \<^verbatim>\<open>generateOrderNumber\<close>: \<^verbatim>\<open>while (exists)\<close> draws a number, looks it up among the
  orders (\<^verbatim>\<open>exists = !!existingOrder\<close>) and goes round again when it is taken. The
  loop has no other exit, so the function is partial: \<open>None\<close> is a run that never
  returns. \<open>i\<close> counts the rounds.
\<close>

definition numberExists :: "Order list \<Rightarrow> string \<Rightarrow> bool" where
  "numberExists os n = (find (\<lambda>existingOrder. orderNumber existingOrder = n) os \<noteq> None)"

partial_function (option) generateOrderNumber ::
  "(nat \<Rightarrow> JsDate) \<Rightarrow> (nat \<Rightarrow> nat) \<Rightarrow> Order list \<Rightarrow> nat \<Rightarrow> string option" where
  "generateOrderNumber ds rs os i =
     (let n = formatOrderNumber (ds i) (rs i) in
      if numberExists os n then generateOrderNumber ds rs os (Suc i) else Some n)"

section \<open>Creating an order\<close>

text \<open>
  The first loop of \<^verbatim>\<open>createOrder\<close>: every item is looked up and checked against the
  stock as stored; nothing is written. It accumulates the subtotal and the item rows.
\<close>

fun validateItems ::
  "(string \<rightharpoonup> Product) \<Rightarrow> CartItem list \<Rightarrow> real \<Rightarrow> OrderItem list
     \<Rightarrow> failure + real \<times> OrderItem list" where
  "validateItems ps [] sub orderItems = Inr (sub, orderItems)"
| "validateItems ps (item # rest) sub orderItems =
     (case ps (productId item) of
        None \<Rightarrow> Inl (Rejected 404 ''Producto no encontrado'')
      | Some product \<Rightarrow>
          if \<not> active product then Inl (Rejected 400 ''Producto no disponible'')
          else if stock product < quantity item then Inl (Rejected 400 ''Stock insuficiente'')
          else
            let itemTotal = price product * of_int (quantity item) in
            validateItems ps rest (sub + itemTotal)
              (orderItems @ [\<lparr>productId = productId item, quantity = quantity item,
                              item_price = price product, item_total = itemTotal\<rparr>]))"

text \<open>
  The discount of a code that passed every check. \<^verbatim>\<open>maxDiscount\<close> is a decimal
  object, so \<^verbatim>\<open>discountCodeObj.maxDiscount && ...\<close> holds whenever it is set.
\<close>

definition rawDiscount :: "DiscountCode \<Rightarrow> real \<Rightarrow> real" where
  "rawDiscount obj sub =
     (if dc_type obj = PERCENTAGE then sub * (dc_value obj / 100) else dc_value obj)"

definition clampDiscount :: "DiscountCode \<Rightarrow> real \<Rightarrow> real" where
  "clampDiscount obj d =
     (case maxDiscount obj of
        None \<Rightarrow> d
      | Some cap \<Rightarrow> if d > cap then cap else d)"

text \<open>
  The checks on a code that was found. \<^verbatim>\<open>!discountCodeObj.maxUses\<close> is true for
  \<^verbatim>\<open>null\<close> and for the number \<^verbatim>\<open>0\<close>; \<^verbatim>\<open>!discountCodeObj.minAmount\<close> is true only
  for \<^verbatim>\<open>null\<close>, a decimal object being truthy whatever its value.
\<close>

definition usesLeft :: "DiscountCode \<Rightarrow> bool" where
  "usesLeft obj =
     (case maxUses obj of
        None \<Rightarrow> True
      | Some m \<Rightarrow> m = 0 \<or> usedCount obj < m)"

definition reachesMinAmount :: "DiscountCode \<Rightarrow> real \<Rightarrow> bool" where
  "reachesMinAmount obj sub =
     (case minAmount obj of
        None \<Rightarrow> True
      | Some a \<Rightarrow> sub \<ge> a)"

definition computeDiscount ::
  "(string \<rightharpoonup> DiscountCode) \<Rightarrow> JsDate \<Rightarrow> string option \<Rightarrow> real \<Rightarrow> real" where
  "computeDiscount codes today code sub =
     (case code of
        None \<Rightarrow> 0
      | Some c \<Rightarrow>
          if c = [] then 0
          else
            (case codes c of
               None \<Rightarrow> 0
             | Some obj \<Rightarrow>
                 if dc_active obj then
                   if getTime today \<ge> validFrom obj \<and> getTime today \<le> validUntil obj then
                     if usesLeft obj then
                       if reachesMinAmount obj sub then clampDiscount obj (rawDiscount obj sub)
                       else 0
                     else 0
                   else 0
                 else 0))"

text \<open>
  The second loop: one \<^verbatim>\<open>prisma.product.update\<close> with \<^verbatim>\<open>decrement\<close> per item of the
  request, in order. A refused update, or one on a row that is gone, throws and ends the
  handler there; the flag tells whether the loop ran to its end, the map is the table as
  the loop left it.
\<close>

fun decrementStock ::
  "DbWrite set \<Rightarrow> nat \<Rightarrow> CartItem list \<Rightarrow> (string \<rightharpoonup> Product)
     \<Rightarrow> bool \<times> (string \<rightharpoonup> Product)" where
  "decrementStock bad i [] ps = (True, ps)"
| "decrementStock bad i (item # rest) ps =
     (if ProductUpdate i \<in> bad then (False, ps)
      else
        (case ps (productId item) of
           None \<Rightarrow> (False, ps)
         | Some product \<Rightarrow>
             decrementStock bad (Suc i) rest
               (ps(productId item \<mapsto> product\<lparr>stock := stock product - quantity item\<rparr>))))"

text \<open>The counter update after the loop, run only for a code with a positive discount.\<close>

definition incrementUsedCount ::
  "DbWrite set \<Rightarrow> string \<Rightarrow> (string \<rightharpoonup> DiscountCode)
     \<Rightarrow> (string \<rightharpoonup> DiscountCode) option" where
  "incrementUsedCount bad c codes =
     (if DiscountCodeUpdate \<in> bad then None
      else
        (case codes c of
           None \<Rightarrow> None
         | Some obj \<Rightarrow> Some (codes(c \<mapsto> obj\<lparr>usedCount := usedCount obj + 1\<rparr>))))"

text \<open>
  The writes of \<^verbatim>\<open>createOrder\<close>, in the order of the source: the order row with its
  items, then the stock of each item, then the usage counter. There is no transaction
  around them and no handler for a failure: what was written before a throw stays.
\<close>

definition persistOrder ::
  "DbWrite set \<Rightarrow> Order \<Rightarrow> CartItem list \<Rightarrow> Db \<Rightarrow> (failure + Order) \<times> Db" where
  "persistOrder bad order its db =
     (if OrderCreate \<in> bad then (Inl Thrown, db)
      else
        let db1 = db\<lparr>orders := orders db @ [order]\<rparr> in
        (case decrementStock bad 0 its (products db1) of
           (False, ps) \<Rightarrow> (Inl Thrown, db1\<lparr>products := ps\<rparr>)
         | (True, ps) \<Rightarrow>
             let db2 = db1\<lparr>products := ps\<rparr> in
             if truthy (discountCode order) \<and> discount order > 0 then
               (case incrementUsedCount bad (the (discountCode order)) (discountCodes db2) of
                  None \<Rightarrow> (Inl Thrown, db2)
                | Some codes \<Rightarrow> (Inr order, db2\<lparr>discountCodes := codes\<rparr>))
             else (Inr order, db2)))"

definition buildOrder ::
  "Env \<Rightarrow> string \<Rightarrow> string option \<Rightarrow> string option \<Rightarrow> real \<Rightarrow> OrderItem list \<Rightarrow> real
     \<Rightarrow> string \<Rightarrow> Order" where
  "buildOrder env uid nts code sub orderItems disc num =
     (let ship = 5000;
          tx = (sub - disc) * (19 / 100);
          tot = sub - disc + ship + tx
      in \<lparr>orderId = newId env, orderNumber = num, userId = uid, items = orderItems,
          subtotal = sub, discount = disc, shipping = ship, tax = tx, total = tot,
          deliveryStatus = PENDING, orderNotes = nts, discountCode = code,
          trackingNumber = None, estimatedDelivery = None, deliveredAt = None\<rparr>)"

text \<open>
  \<^verbatim>\<open>createOrder\<close>. The result is \<open>None\<close> when the order number loop never returns;
  otherwise the response and the store as the handler left it.
\<close>

definition createOrder ::
  "Env \<Rightarrow> string \<Rightarrow> CartItem list \<Rightarrow> string option \<Rightarrow> string option \<Rightarrow> Db
     \<Rightarrow> ((failure + Order) \<times> Db) option" where
  "createOrder env uid its nts code db =
     (case validateItems (products db) its 0 [] of
        Inl e \<Rightarrow> Some (Inl e, db)
      | Inr (sub, orderItems) \<Rightarrow>
          let disc = computeDiscount (discountCodes db) (now env) code sub in
          (case generateOrderNumber (dates env) (draws env) (orders db) 0 of
             None \<Rightarrow> None
           | Some num \<Rightarrow>
               Some (persistOrder (failing env)
                       (buildOrder env uid nts code sub orderItems disc num) its db)))"

section \<open>Cancelling an order\<close>

text \<open>
  \<^verbatim>\<open>findUnique\<close> with \<^verbatim>\<open>where = { id }\<close>, to which \<^verbatim>\<open>userId\<close> is added when the
  caller's role is not \<^verbatim>\<open>'ADMIN'\<close>.
\<close>

definition findOrder :: "string \<Rightarrow> Caller \<Rightarrow> Order list \<Rightarrow> Order option" where
  "findOrder oid caller os =
     find (\<lambda>order. orderId order = oid
             \<and> (role caller = ''ADMIN'' \<or> userId order = callerId caller)) os"

text \<open>\<^verbatim>\<open>prisma.order.update({ where: { id }, data })\<close>.\<close>

definition updateOrder :: "string \<Rightarrow> (Order \<Rightarrow> Order) \<Rightarrow> Order list \<Rightarrow> Order list" where
  "updateOrder oid f os = map (\<lambda>order. if orderId order = oid then f order else order) os"

text \<open>\<^verbatim>\<open>reason ? `${order.notes || ''}\nCancelada: ${reason}` : order.notes\<close>\<close>

definition cancelNotes :: "string option \<Rightarrow> string option \<Rightarrow> string option" where
  "cancelNotes old reason =
     (case reason of
        None \<Rightarrow> old
      | Some r \<Rightarrow>
          if r = [] then old
          else Some ((case old of None \<Rightarrow> [] | Some s \<Rightarrow> s)
                       @ [char_of (10::nat)] @ ''Cancelada: '' @ r))"

definition markCancelled :: "Order \<Rightarrow> string option \<Rightarrow> Order \<Rightarrow> Order" where
  "markCancelled found reason order =
     order\<lparr>deliveryStatus := CANCELLED, orderNotes := cancelNotes (orderNotes found) reason\<rparr>"

text \<open>
  The loop of \<^verbatim>\<open>cancelOrder\<close>: one \<^verbatim>\<open>prisma.product.update\<close> with \<^verbatim>\<open>increment\<close>
  per item of the order, in order. A refused update, or one on a row that is gone, throws
  and ends the handler there; the flag tells whether the loop ran to its end, the map is
  the table as the loop left it.
\<close>

fun restoreStock ::
  "DbWrite set \<Rightarrow> nat \<Rightarrow> OrderItem list \<Rightarrow> (string \<rightharpoonup> Product)
     \<Rightarrow> bool \<times> (string \<rightharpoonup> Product)" where
  "restoreStock bad i [] ps = (True, ps)"
| "restoreStock bad i (item # rest) ps =
     (if ProductUpdate i \<in> bad then (False, ps)
      else
        (case ps (productId item) of
           None \<Rightarrow> (False, ps)
         | Some product \<Rightarrow>
             restoreStock bad (Suc i) rest
               (ps(productId item \<mapsto> product\<lparr>stock := stock product + quantity item\<rparr>))))"

text \<open>
  \<^verbatim>\<open>cancelOrder\<close>: the lookup, the check of the delivery status, then the writes in the
  order of the source: the order row, then the stock of each item. There is no
  transaction around them: what was written before a throw stays.
\<close>

definition cancelOrder ::
  "DbWrite set \<Rightarrow> string \<Rightarrow> Caller \<Rightarrow> string option \<Rightarrow> Db \<Rightarrow> (failure + Order) \<times> Db" where
  "cancelOrder bad oid caller reason db =
     (case findOrder oid caller (orders db) of
        None \<Rightarrow> (Inl (Rejected 404 ''Orden no encontrada''), db)
      | Some order \<Rightarrow>
          if deliveryStatus order = DELIVERED \<or> deliveryStatus order = CANCELLED
          then (Inl (Rejected 400 ''No se puede cancelar la orden''), db)
          else if OrderUpdate \<in> bad then (Inl Thrown, db)
          else
            let db1 = db\<lparr>orders := updateOrder oid (markCancelled order reason) (orders db)\<rparr> in
            (case restoreStock bad 0 (items order) (products db1) of
               (False, ps) \<Rightarrow> (Inl Thrown, db1\<lparr>products := ps\<rparr>)
             | (True, ps) \<Rightarrow> (Inr (markCancelled order reason order), db1\<lparr>products := ps\<rparr>)))"

section \<open>Updating the delivery status\<close>

text \<open>
  \<^verbatim>\<open>if (estimatedDelivery) updateData.estimatedDelivery = new Date(estimatedDelivery)\<close>:
  nothing for a request without the field, otherwise what the runtime's date parser
  (the parameter \<open>newDate\<close>) makes of the string.
\<close>

fun estimatedDate :: "(string \<Rightarrow> DateValue) \<Rightarrow> string option \<Rightarrow> DateValue option" where
  "estimatedDate newDate None = None"
| "estimatedDate newDate (Some s) = (if s = [] then None else Some (newDate s))"

text \<open>
  \<^verbatim>\<open>updateData\<close>: the requested status always, the tracking number and the estimated
  delivery when the request has them, and \<^verbatim>\<open>deliveredAt = new Date()\<close> whenever the
  requested status is \<open>DELIVERED\<close>.
\<close>

definition updateData ::
  "DeliveryStatus \<Rightarrow> string option \<Rightarrow> JsDate option \<Rightarrow> JsDate \<Rightarrow> Order \<Rightarrow> Order" where
  "updateData st tn ed today order =
     (let o1 = order\<lparr>deliveryStatus := st\<rparr>;
          o2 = (if truthy tn then o1\<lparr>trackingNumber := tn\<rparr> else o1);
          o3 = (case ed of None \<Rightarrow> o2 | Some d \<Rightarrow> o2\<lparr>estimatedDelivery := Some d\<rparr>)
      in if st = DELIVERED then o3\<lparr>deliveredAt := Some today\<rparr> else o3)"

text \<open>\<^verbatim>\<open>prisma.order.update({ where: { id }, data: updateData })\<close>, which the store may refuse.\<close>

definition writeOrder ::
  "DbWrite set \<Rightarrow> string \<Rightarrow> (Order \<Rightarrow> Order) \<Rightarrow> Order \<Rightarrow> Db \<Rightarrow> (failure + Order) \<times> Db" where
  "writeOrder bad oid f order db =
     (if OrderUpdate \<in> bad then (Inl Thrown, db)
      else (Inr (f order), db\<lparr>orders := updateOrder oid f (orders db)\<rparr>))"

text \<open>
  \<^verbatim>\<open>updateDeliveryStatus\<close>: the lookup by key, then the one write. Prisma refuses an
  \<^verbatim>\<open>Invalid Date\<close> before anything is written, and the handler throws.
\<close>

definition updateDeliveryStatus ::
  "DbWrite set \<Rightarrow> (string \<Rightarrow> DateValue) \<Rightarrow> string \<Rightarrow> DeliveryStatus \<Rightarrow> string option
     \<Rightarrow> string option \<Rightarrow> JsDate \<Rightarrow> Db \<Rightarrow> (failure + Order) \<times> Db" where
  "updateDeliveryStatus bad newDate oid st tn ed today db =
     (case find (\<lambda>order. orderId order = oid) (orders db) of
        None \<Rightarrow> (Inl (Rejected 404 ''Orden no encontrada''), db)
      | Some order \<Rightarrow>
          (case estimatedDate newDate ed of
             None \<Rightarrow> writeOrder bad oid (updateData st tn None today) order db
           | Some InvalidDate \<Rightarrow> (Inl Thrown, db)
           | Some (ValidDate d) \<Rightarrow> writeOrder bad oid (updateData st tn (Some d) today) order db))"

section \<open>The order number loop\<close>

lemma numberExists_iff: "numberExists os n \<longleftrightarrow> n \<in> set (map orderNumber os)"
  by (auto simp: numberExists_def find_None_iff)

lemma generateOrderNumber_unfold:
  "generateOrderNumber ds rs os i =
     (if numberExists os (formatOrderNumber (ds i) (rs i)) then generateOrderNumber ds rs os (Suc i)
      else Some (formatOrderNumber (ds i) (rs i)))"
  by (subst generateOrderNumber.simps) (simp add: Let_def)

text \<open>
  A run that returns stopped at some round \<open>j\<close>: the number of that round is free and
  the number of every earlier round was taken.
\<close>

lemma generateOrderNumber_Some:
  assumes "generateOrderNumber ds rs os i = Some y"
  shows "\<exists>j\<ge>i. y = formatOrderNumber (ds j) (rs j) \<and> \<not> numberExists os y
        \<and> (\<forall>k. i \<le> k \<and> k < j \<longrightarrow> numberExists os (formatOrderNumber (ds k) (rs k)))"
  using assms
proof (induction rule: generateOrderNumber.raw_induct[rotated 1, consumes 1, case_names round])
  case (round gen ds rs os i y)
  show ?case
  proof (cases "numberExists os (formatOrderNumber (ds i) (rs i))")
    case True
    with round(2) have "gen ds rs os (Suc i) = Some y"
      by (simp add: Let_def)
    from round(1)[OF this] obtain j where j1: "Suc i \<le> j" and j2: "y = formatOrderNumber (ds j) (rs j)"
      and j3: "\<not> numberExists os y"
      and j4: "\<forall>k. Suc i \<le> k \<and> k < j \<longrightarrow> numberExists os (formatOrderNumber (ds k) (rs k))"
      by (elim exE conjE)
    have "numberExists os (formatOrderNumber (ds k) (rs k))" if "i \<le> k" "k < j" for k
    proof (cases "k = i")
      case True
      then show ?thesis using \<open>numberExists os (formatOrderNumber (ds i) (rs i))\<close> by simp
    next
      case False
      with that have "Suc i \<le> k \<and> k < j" by simp
      with j4 show ?thesis by simp
    qed
    then have j5: "\<forall>k. i \<le> k \<and> k < j \<longrightarrow> numberExists os (formatOrderNumber (ds k) (rs k))"
      by simp
    from j1 have "i \<le> j" by simp
    with j2 j3 j5 show ?thesis by (intro exI[of _ j] conjI)
  next
    case False
    with round(2) have "y = formatOrderNumber (ds i) (rs i)"
      by (simp add: Let_def)
    with False show ?thesis by (intro exI[of _ i] conjI allI impI) auto
  qed
qed

lemma generateOrderNumber_first_free:
  "(\<forall>k<n. numberExists os (formatOrderNumber (ds (i + k)) (rs (i + k)))) \<Longrightarrow>
   \<not> numberExists os (formatOrderNumber (ds (i + n)) (rs (i + n))) \<Longrightarrow>
   generateOrderNumber ds rs os i = Some (formatOrderNumber (ds (i + n)) (rs (i + n)))"
proof (induction n arbitrary: i)
  case 0
  then show ?case by (subst generateOrderNumber_unfold) simp
next
  case (Suc n)
  have t: "numberExists os (formatOrderNumber (ds i) (rs i))"
    using Suc.prems(1)[rule_format, of 0] by simp
  have "generateOrderNumber ds rs os (Suc i)
          = Some (formatOrderNumber (ds (Suc i + n)) (rs (Suc i + n)))"
  proof (rule Suc.IH)
    show "\<forall>k<n. numberExists os (formatOrderNumber (ds (Suc i + k)) (rs (Suc i + k)))"
      using Suc.prems(1) by (metis Suc_less_eq add_Suc add_Suc_right)
    show "\<not> numberExists os (formatOrderNumber (ds (Suc i + n)) (rs (Suc i + n)))"
      using Suc.prems(2) by simp
  qed
  then show ?case using t by (subst generateOrderNumber_unfold) simp
qed

lemma generateOrderNumber_None:
  assumes "\<forall>j\<ge>i. numberExists os (formatOrderNumber (ds j) (rs j))"
  shows "generateOrderNumber ds rs os i = None"
proof (rule ccontr)
  assume "generateOrderNumber ds rs os i \<noteq> None"
  then obtain y where "generateOrderNumber ds rs os i = Some y" by auto
  from generateOrderNumber_Some[OF this] assms show False by blast
qed

text \<open>
  Once the 10000 numbers of a day are all stored, no source of draws makes the loop
  return on that day.
\<close>

lemma generateOrderNumber_exhausted:
  assumes "\<forall>r<10000. numberExists os (formatOrderNumber d r)" and "\<forall>j. rs j < 10000"
  shows "generateOrderNumber (\<lambda>_. d) rs os i = None"
  using assms by (intro generateOrderNumber_None) simp

text \<open>The order number of 2 November 2026 with the draw 7, and with the draw 8.\<close>

lemma formatOrderNumber_7:
  "formatOrderNumber \<lparr>getTime = 50, getFullYear = 2026, getMonth = 10, getDate = 2\<rparr> 7
     = ''CHE2611020007''"
  by code_simp

lemma formatOrderNumber_8:
  "formatOrderNumber \<lparr>getTime = 50, getFullYear = 2026, getMonth = 10, getDate = 2\<rparr> 8
     = ''CHE2611020008''"
  by code_simp

section \<open>What \<^verbatim>\<open>createOrder\<close> writes\<close>

text \<open>The writes either stop at the refused order row, or the order row is in the table.\<close>

lemma persistOrder_cases:
  assumes "persistOrder bad order its db = (r, db')"
  shows "(db' = db \<and> r = Inl Thrown) \<or> orders db' = orders db @ [order]"
  using assms
  by (auto simp: persistOrder_def Let_def split: if_splits prod.splits bool.splits option.splits)

text \<open>A new order carries a number that no stored order has.\<close>

lemma createOrder_orderNumber_distinct:
  assumes d: "distinct (map orderNumber (orders db))"
    and c: "createOrder env uid its nts code db = Some (res, db')"
  shows "distinct (map orderNumber (orders db'))"
proof (cases "validateItems (products db) its 0 []")
  case (Inl e)
  with c have "db' = db" by (simp add: createOrder_def)
  with d show ?thesis by simp
next
  case (Inr r)
  obtain sub orderItems where r: "r = (sub, orderItems)" by (cases r)
  from c Inr r obtain num where
    g: "generateOrderNumber (dates env) (draws env) (orders db) 0 = Some num"
    and p: "persistOrder (failing env)
              (buildOrder env uid nts code sub orderItems
                 (computeDiscount (discountCodes db) (now env) code sub) num) its db = (res, db')"
    by (auto simp: createOrder_def Let_def split: option.splits)
  from generateOrderNumber_Some[OF g] have "\<not> numberExists (orders db) num" by blast
  then have fresh: "num \<notin> set (map orderNumber (orders db))"
    by (simp add: numberExists_iff)
  from persistOrder_cases[OF p] show ?thesis
  proof
    assume "db' = db \<and> res = Inl Thrown"
    with d show ?thesis by simp
  next
    assume "orders db' = orders db @ [buildOrder env uid nts code sub orderItems
                 (computeDiscount (discountCodes db) (now env) code sub) num]"
    with d fresh show ?thesis by (simp add: buildOrder_def Let_def)
  qed
qed

section \<open>Order numbers: unique, and drawn without a bound\<close>

text \<open>
  Claim C3, as the code has it. A number that \<^verbatim>\<open>generateOrderNumber\<close> returns is the
  number of no stored order, and \<^verbatim>\<open>createOrder\<close> keeps the stored order numbers
  pairwise different. The loop has no bound on its rounds and no error exit: after any
  number \<open>n\<close> of taken draws it returns the first free one, and when every draw is taken
  it never returns.
\<close>

theorem generateOrderNumber_unique_unbounded:
  "(generateOrderNumber ds rs os i = Some y \<longrightarrow> y \<notin> set (map orderNumber os))
   \<and> ((\<forall>k<n. numberExists os (formatOrderNumber (ds (i + k)) (rs (i + k))))
        \<and> \<not> numberExists os (formatOrderNumber (ds (i + n)) (rs (i + n)))
      \<longrightarrow> generateOrderNumber ds rs os i = Some (formatOrderNumber (ds (i + n)) (rs (i + n))))
   \<and> ((\<forall>j\<ge>i. numberExists os (formatOrderNumber (ds j) (rs j)))
      \<longrightarrow> generateOrderNumber ds rs os i = None)
   \<and> (distinct (map orderNumber (orders db))
        \<and> createOrder env uid its nts code db = Some (res, db')
      \<longrightarrow> distinct (map orderNumber (orders db')))"
proof (intro conjI impI)
  assume "generateOrderNumber ds rs os i = Some y"
  from generateOrderNumber_Some[OF this] show "y \<notin> set (map orderNumber os)"
    by (auto simp: numberExists_iff)
next
  assume "(\<forall>k<n. numberExists os (formatOrderNumber (ds (i + k)) (rs (i + k))))
        \<and> \<not> numberExists os (formatOrderNumber (ds (i + n)) (rs (i + n)))"
  then show "generateOrderNumber ds rs os i = Some (formatOrderNumber (ds (i + n)) (rs (i + n)))"
    using generateOrderNumber_first_free by blast
next
  assume "\<forall>j\<ge>i. numberExists os (formatOrderNumber (ds j) (rs j))"
  then show "generateOrderNumber ds rs os i = None" by (rule generateOrderNumber_None)
next
  assume "distinct (map orderNumber (orders db))
        \<and> createOrder env uid its nts code db = Some (res, db')"
  then show "distinct (map orderNumber (orders db'))"
    using createOrder_orderNumber_distinct by blast
qed

text \<open>
  Against the bounded retry of claim C3: on 2 November 2026 with \<open>CHE2611020007\<close> stored
  and a random source that always draws 7, the generator neither returns a number nor
  raises an error; it loops for ever.
\<close>

theorem generateOrderNumber_never_returns:
  "generateOrderNumber
     (\<lambda>_. \<lparr>getTime = 50, getFullYear = 2026, getMonth = 10, getDate = 2\<rparr>) (\<lambda>_. 7)
     [\<lparr>orderId = ''o0'', orderNumber = ''CHE2611020007'', userId = ''u0'', items = [],
       subtotal = 0, discount = 0, shipping = 5000, tax = 0, total = 5000,
       deliveryStatus = PENDING, orderNotes = None, discountCode = None,
       trackingNumber = None, estimatedDelivery = None, deliveredAt = None\<rparr>] 0
   = None"
  by (rule generateOrderNumber_None) (simp add: formatOrderNumber_7 numberExists_def)


text \<open>An order without items, created beside the stored order \<open>CHE2611020007\<close>.\<close>

lemma createOrder_example_8:
  "createOrder
     \<lparr>failing = {}, now = \<lparr>getTime = 50, getFullYear = 2026, getMonth = 10, getDate = 2\<rparr>,
      dates = (\<lambda>_. \<lparr>getTime = 50, getFullYear = 2026, getMonth = 10, getDate = 2\<rparr>),
      draws = (\<lambda>_. 8), newId = ''o1''\<rparr>
     ''u1'' [] None None
     \<lparr>products = Map.empty, discountCodes = Map.empty,
      orders = [\<lparr>orderId = ''o0'', orderNumber = ''CHE2611020007'', userId = ''u0'', items = [],
       subtotal = 0, discount = 0, shipping = 5000, tax = 0, total = 5000,
       deliveryStatus = PENDING, orderNotes = None, discountCode = None,
       trackingNumber = None, estimatedDelivery = None, deliveredAt = None\<rparr>]\<rparr>
   = Some (Inr \<lparr>orderId = ''o1'', orderNumber = ''CHE2611020008'', userId = ''u1'', items = [],
       subtotal = 0, discount = 0, shipping = 5000, tax = 0, total = 5000,
       deliveryStatus = PENDING, orderNotes = None, discountCode = None,
       trackingNumber = None, estimatedDelivery = None, deliveredAt = None\<rparr>,
     \<lparr>products = Map.empty, discountCodes = Map.empty,
      orders = [\<lparr>orderId = ''o0'', orderNumber = ''CHE2611020007'', userId = ''u0'', items = [],
       subtotal = 0, discount = 0, shipping = 5000, tax = 0, total = 5000,
       deliveryStatus = PENDING, orderNotes = None, discountCode = None,
       trackingNumber = None, estimatedDelivery = None, deliveredAt = None\<rparr>,
       \<lparr>orderId = ''o1'', orderNumber = ''CHE2611020008'', userId = ''u1'', items = [],
       subtotal = 0, discount = 0, shipping = 5000, tax = 0, total = 5000,
       deliveryStatus = PENDING, orderNotes = None, discountCode = None,
       trackingNumber = None, estimatedDelivery = None, deliveredAt = None\<rparr>]\<rparr>)"
  by (simp add: createOrder_def generateOrderNumber_unfold formatOrderNumber_8 numberExists_def
        computeDiscount_def persistOrder_def buildOrder_def Let_def)

text \<open>
  The theorem of claim C3 at concrete inputs: three taken draws before a free one, a
  source whose every draw is taken, and the order created above.
\<close>

theorem generateOrderNumber_unique_unbounded_witness:
  "generateOrderNumber
     (\<lambda>_. \<lparr>getTime = 50, getFullYear = 2026, getMonth = 10, getDate = 2\<rparr>)
     (\<lambda>k. if k < 3 then 7 else 8)
     [\<lparr>orderId = ''o0'', orderNumber = ''CHE2611020007'', userId = ''u0'', items = [],
       subtotal = 0, discount = 0, shipping = 5000, tax = 0, total = 5000,
       deliveryStatus = PENDING, orderNotes = None, discountCode = None,
       trackingNumber = None, estimatedDelivery = None, deliveredAt = None\<rparr>] 0
     = Some ''CHE2611020008''
   \<and> ''CHE2611020008'' \<notin> set (map orderNumber
     [\<lparr>orderId = ''o0'', orderNumber = ''CHE2611020007'', userId = ''u0'', items = [],
       subtotal = 0, discount = 0, shipping = 5000, tax = 0, total = 5000,
       deliveryStatus = PENDING, orderNotes = None, discountCode = None,
       trackingNumber = None, estimatedDelivery = None, deliveredAt = None\<rparr>])
   \<and> generateOrderNumber
     (\<lambda>_. \<lparr>getTime = 50, getFullYear = 2026, getMonth = 10, getDate = 2\<rparr>) (\<lambda>_. 7)
     [\<lparr>orderId = ''o0'', orderNumber = ''CHE2611020007'', userId = ''u0'', items = [],
       subtotal = 0, discount = 0, shipping = 5000, tax = 0, total = 5000,
       deliveryStatus = PENDING, orderNotes = None, discountCode = None,
       trackingNumber = None, estimatedDelivery = None, deliveredAt = None\<rparr>] 0
     = None
   \<and> distinct (map orderNumber
     [\<lparr>orderId = ''o0'', orderNumber = ''CHE2611020007'', userId = ''u0'', items = [],
       subtotal = 0, discount = 0, shipping = 5000, tax = 0, total = 5000,
       deliveryStatus = PENDING, orderNotes = None, discountCode = None,
       trackingNumber = None, estimatedDelivery = None, deliveredAt = None\<rparr>,
      \<lparr>orderId = ''o1'', orderNumber = ''CHE2611020008'', userId = ''u1'', items = [],
       subtotal = 0, discount = 0, shipping = 5000, tax = 0, total = 5000,
       deliveryStatus = PENDING, orderNotes = None, discountCode = None,
       trackingNumber = None, estimatedDelivery = None, deliveredAt = None\<rparr>])"
  (is "?g3 = Some ?n8 \<and> ?n8 \<notin> set (map orderNumber ?os) \<and> ?g7 = None \<and> distinct (map orderNumber ?os')")
proof -
  let ?d = "\<lparr>getTime = 50, getFullYear = 2026, getMonth = 10, getDate = 2\<rparr>"
  let ?rs = "\<lambda>k::nat. if k < 3 then 7 else (8::nat)"
  have pre: "(\<forall>k<3. numberExists ?os (formatOrderNumber ?d (?rs (0 + k))))
        \<and> \<not> numberExists ?os (formatOrderNumber ?d (?rs (0 + 3)))"
    by (simp add: formatOrderNumber_7 formatOrderNumber_8 numberExists_def)
  have a: "?g3 = Some ?n8"
    using generateOrderNumber_unique_unbounded[where ds = "\<lambda>_. ?d" and rs = ?rs and os = ?os
        and i = 0 and n = 3] pre
    by (simp add: formatOrderNumber_8)
  have b: "?n8 \<notin> set (map orderNumber ?os)"
    by (rule generateOrderNumber_unique_unbounded[where ds = "\<lambda>_. ?d" and rs = ?rs and os = ?os
          and i = 0 and y = ?n8, THEN conjunct1, THEN mp, OF a])
  have pre7: "\<forall>j\<ge>0. numberExists ?os (formatOrderNumber ?d 7)"
    by (simp add: formatOrderNumber_7 numberExists_def)
  have c: "?g7 = None"
    by (rule generateOrderNumber_unique_unbounded[where ds = "\<lambda>_. ?d" and rs = "\<lambda>_. 7"
          and os = ?os and i = 0, THEN conjunct2, THEN conjunct2, THEN conjunct1, THEN mp, OF pre7])
  have d0: "distinct (map orderNumber ?os)" by simp
  let ?env = "\<lparr>failing = {}, now = ?d, dates = (\<lambda>_. ?d), draws = (\<lambda>_. 8), newId = ''o1''\<rparr>"
  let ?db = "\<lparr>products = Map.empty, discountCodes = Map.empty, orders = ?os\<rparr>"
  let ?db' = "\<lparr>products = Map.empty, discountCodes = Map.empty, orders = ?os'\<rparr>"
  have "createOrder ?env ''u1'' [] None None ?db = Some (Inr (last ?os'), ?db')"
    using createOrder_example_8 by simp
  with d0 have pre8: "distinct (map orderNumber (orders ?db))
      \<and> createOrder ?env ''u1'' [] None None ?db = Some (Inr (last ?os'), ?db')"
    by simp
  have "distinct (map orderNumber (orders ?db'))"
    by (rule generateOrderNumber_unique_unbounded[where db = ?db and db' = ?db' and env = ?env
          and uid = "''u1''" and its = "[]" and nts = None and code = None
          and res = "Inr (last ?os')",
          THEN conjunct2, THEN conjunct2, THEN conjunct2, THEN mp, OF pre8])
  then have d: "distinct (map orderNumber ?os')" by simp
  from a b c d show ?thesis by (intro conjI)
qed

section \<open>Stock and repeated lines\<close>

text \<open>
  Claim C2 at a request that names the same product twice: product \<open>P\<close> has 5 in stock
  and the request asks for 3 and 3. Each line passes the check against the stored stock,
  the order is created and both decrements run, so the stock ends at \<open>-1\<close>.
\<close>

theorem createOrder_repeated_lines_negative_stock:
  "createOrder
     \<lparr>failing = {}, now = \<lparr>getTime = 50, getFullYear = 2026, getMonth = 10, getDate = 2\<rparr>,
      dates = (\<lambda>_. \<lparr>getTime = 50, getFullYear = 2026, getMonth = 10, getDate = 2\<rparr>),
      draws = (\<lambda>_. 7), newId = ''o1''\<rparr>
     ''u1'' [\<lparr>productId = ''P'', quantity = 3\<rparr>, \<lparr>productId = ''P'', quantity = 3\<rparr>] None None
     \<lparr>products = [''P'' \<mapsto> \<lparr>price = 1000, active = True, stock = 5\<rparr>],
      discountCodes = Map.empty, orders = []\<rparr>
   = Some (Inr \<lparr>orderId = ''o1'', orderNumber = ''CHE2611020007'', userId = ''u1'',
       items = [\<lparr>productId = ''P'', quantity = 3, item_price = 1000, item_total = 3000\<rparr>,
                \<lparr>productId = ''P'', quantity = 3, item_price = 1000, item_total = 3000\<rparr>],
       subtotal = 6000, discount = 0, shipping = 5000, tax = 1140, total = 12140,
       deliveryStatus = PENDING, orderNotes = None, discountCode = None,
       trackingNumber = None, estimatedDelivery = None, deliveredAt = None\<rparr>,
     \<lparr>products = [''P'' \<mapsto> \<lparr>price = 1000, active = True, stock = - 1\<rparr>],
      discountCodes = Map.empty,
      orders = [\<lparr>orderId = ''o1'', orderNumber = ''CHE2611020007'', userId = ''u1'',
       items = [\<lparr>productId = ''P'', quantity = 3, item_price = 1000, item_total = 3000\<rparr>,
                \<lparr>productId = ''P'', quantity = 3, item_price = 1000, item_total = 3000\<rparr>],
       subtotal = 6000, discount = 0, shipping = 5000, tax = 1140, total = 12140,
       deliveryStatus = PENDING, orderNotes = None, discountCode = None,
       trackingNumber = None, estimatedDelivery = None, deliveredAt = None\<rparr>]\<rparr>)"
  by (simp add: createOrder_def generateOrderNumber_unfold formatOrderNumber_7 numberExists_def
        computeDiscount_def persistOrder_def buildOrder_def Let_def)

section \<open>The loops of \<^verbatim>\<open>createOrder\<close>\<close>

text \<open>Items that passed the first loop name products that exist.\<close>

lemma validateItems_Inr_dom:
  "validateItems ps its sub acc = Inr r \<Longrightarrow> \<forall>item\<in>set its. productId item \<in> dom ps"
  by (induction its arbitrary: sub acc)
     (auto simp: Let_def split: option.splits if_splits)

text \<open>The stock loop creates and deletes no product row.\<close>

lemma decrementStock_dom: "dom (snd (decrementStock bad i its ps)) = dom ps"
  by (induction its arbitrary: i ps) (auto split: option.splits)

text \<open>With every product there and no update refused, the stock loop runs to its end.\<close>

lemma decrementStock_ok:
  "\<forall>item\<in>set its. productId item \<in> dom ps \<Longrightarrow>
   \<forall>j<length its. ProductUpdate (i + j) \<notin> bad \<Longrightarrow>
   fst (decrementStock bad i its ps)"
proof (induction its arbitrary: i ps)
  case Nil
  then show ?case by simp
next
  case (Cons item rest)
  from Cons.prems(1) obtain product where p: "ps (productId item) = Some product" by auto
  from Cons.prems(2) have ok0: "ProductUpdate i \<notin> bad" by force
  let ?ps = "ps(productId item \<mapsto> product\<lparr>stock := stock product - quantity item\<rparr>)"
  have "fst (decrementStock bad (Suc i) rest ?ps)"
  proof (rule Cons.IH)
    show "\<forall>item\<in>set rest. productId item \<in> dom ?ps" using Cons.prems(1) by auto
    show "\<forall>j<length rest. ProductUpdate (Suc i + j) \<notin> bad"
    proof (intro allI impI)
      fix j assume "j < length rest"
      then have "Suc j < length (item # rest)" by simp
      with Cons.prems(2) have "ProductUpdate (i + Suc j) \<notin> bad" by blast
      then show "ProductUpdate (Suc i + j) \<notin> bad" by simp
    qed
  qed
  with p ok0 show ?case by simp
qed

text \<open>When no update is refused the position counter plays no part.\<close>

lemma decrementStock_index:
  "decrementStock {} i its ps = decrementStock {} 0 its ps"
proof (induction its arbitrary: i ps)
  case Nil
  then show ?case by simp
next
  case (Cons item rest)
  show ?case
  proof (cases "ps (productId item)")
    case None
    then show ?thesis by simp
  next
    case (Some product)
    let ?ps = "ps(productId item \<mapsto> product\<lparr>stock := stock product - quantity item\<rparr>)"
    have "decrementStock {} (Suc i) rest ?ps = decrementStock {} 0 rest ?ps" by (rule Cons.IH)
    moreover have "decrementStock {} (Suc 0) rest ?ps = decrementStock {} 0 rest ?ps"
      by (rule Cons.IH)
    ultimately show ?thesis using Some by simp
  qed
qed

text \<open>
  A refused update at item \<open>k\<close> ends the loop with the first \<open>k\<close> items decremented.
\<close>

lemma decrementStock_fail_at:
  "k < length its \<Longrightarrow> ProductUpdate (i + k) \<in> bad \<Longrightarrow>
   \<forall>j<k. ProductUpdate (i + j) \<notin> bad \<Longrightarrow>
   \<forall>item\<in>set its. productId item \<in> dom ps \<Longrightarrow>
   decrementStock bad i its ps = (False, snd (decrementStock {} 0 (take k its) ps))"
proof (induction its arbitrary: i k ps)
  case Nil
  then show ?case by simp
next
  case (Cons item rest)
  show ?case
  proof (cases k)
    case 0
    with Cons.prems(2) show ?thesis by simp
  next
    case (Suc k')
    from Cons.prems(4) obtain product where p: "ps (productId item) = Some product" by auto
    from Cons.prems(3) Suc have ok0: "ProductUpdate i \<notin> bad" by force
    let ?ps = "ps(productId item \<mapsto> product\<lparr>stock := stock product - quantity item\<rparr>)"
    have "decrementStock bad (Suc i) rest ?ps
            = (False, snd (decrementStock {} 0 (take k' rest) ?ps))"
    proof (rule Cons.IH)
      show "k' < length rest" using Cons.prems(1) Suc by simp
      show "ProductUpdate (Suc i + k') \<in> bad" using Cons.prems(2) Suc by simp
      show "\<forall>j<k'. ProductUpdate (Suc i + j) \<notin> bad"
      proof (intro allI impI)
        fix j assume "j < k'"
        then have "Suc j < k" using Suc by simp
        with Cons.prems(3) have "ProductUpdate (i + Suc j) \<notin> bad" by blast
        then show "ProductUpdate (Suc i + j) \<notin> bad" by simp
      qed
      show "\<forall>item\<in>set rest. productId item \<in> dom ?ps" using Cons.prems(4) by auto
    qed
    moreover have "decrementStock {} (Suc 0) (take k' rest) ?ps
                     = decrementStock {} 0 (take k' rest) ?ps"
      by (rule decrementStock_index)
    ultimately show ?thesis using p ok0 Suc by simp
  qed
qed

text \<open>A positive discount comes from a code that was supplied and found.\<close>

lemma computeDiscount_pos:
  "0 < computeDiscount codes today code sub \<Longrightarrow>
     \<exists>c obj. code = Some c \<and> c \<noteq> [] \<and> codes c = Some obj"
  by (auto simp: computeDiscount_def split: option.splits if_splits)

text \<open>The two ways the writes end.\<close>

lemma persistOrder_Inl:
  "persistOrder bad order its db = (Inl e, db') \<Longrightarrow>
     e = Thrown \<and> discountCodes db' = discountCodes db"
  by (auto simp: persistOrder_def Let_def split: if_splits prod.splits bool.splits option.splits)

lemma persistOrder_Inr:
  assumes "persistOrder bad order its db = (Inr o', db')"
  shows "o' = order \<and> orders db' = orders db @ [order]
     \<and> decrementStock bad 0 its (products db) = (True, products db')
     \<and> (if truthy (discountCode order) \<and> 0 < discount order
         then incrementUsedCount bad (the (discountCode order)) (discountCodes db)
                = Some (discountCodes db')
         else discountCodes db' = discountCodes db)"
  using assms
  by (auto simp: persistOrder_def Let_def split: if_splits prod.splits bool.splits option.splits)

section \<open>The ways \<^verbatim>\<open>createOrder\<close> ends\<close>

lemma createOrder_Inl:
  "validateItems (products db) its 0 [] = Inl e \<Longrightarrow>
     createOrder env uid its nts code db = Some (Inl e, db)"
  by (simp add: createOrder_def)

lemma createOrder_Inr:
  "validateItems (products db) its 0 [] = Inr (sub, orderItems) \<Longrightarrow>
   generateOrderNumber (dates env) (draws env) (orders db) 0 = Some num \<Longrightarrow>
     createOrder env uid its nts code db =
       Some (persistOrder (failing env)
               (buildOrder env uid nts code sub orderItems
                  (computeDiscount (discountCodes db) (now env) code sub) num) its db)"
  by (simp add: createOrder_def Let_def)

lemma createOrder_Some_cases:
  assumes "createOrder env uid its nts code db = Some (res, db')"
  shows "(\<exists>e. validateItems (products db) its 0 [] = Inl e \<and> res = Inl e \<and> db' = db)
     \<or> (\<exists>sub orderItems num.
           validateItems (products db) its 0 [] = Inr (sub, orderItems)
         \<and> generateOrderNumber (dates env) (draws env) (orders db) 0 = Some num
         \<and> persistOrder (failing env)
               (buildOrder env uid nts code sub orderItems
                  (computeDiscount (discountCodes db) (now env) code sub) num) its db = (res, db'))"
proof (cases "validateItems (products db) its 0 []")
  case (Inl e)
  with assms show ?thesis by (simp add: createOrder_def)
next
  case (Inr r)
  obtain sub orderItems where r: "r = (sub, orderItems)" by (cases r)
  from assms Inr r obtain num where
    "generateOrderNumber (dates env) (draws env) (orders db) 0 = Some num"
    "persistOrder (failing env)
       (buildOrder env uid nts code sub orderItems
          (computeDiscount (discountCodes db) (now env) code sub) num) its db = (res, db')"
    by (auto simp: createOrder_def Let_def split: option.splits)
  with Inr r show ?thesis by blast
qed

lemma buildOrder_fields:
  "discountCode (buildOrder env uid nts code sub orderItems disc num) = code"
  "discount (buildOrder env uid nts code sub orderItems disc num) = disc"
  "subtotal (buildOrder env uid nts code sub orderItems disc num) = sub"
  "orderNumber (buildOrder env uid nts code sub orderItems disc num) = num"
  by (simp_all add: buildOrder_def Let_def)

text \<open>With no write refused, the writes of a validated request all happen.\<close>

lemma persistOrder_no_fault:
  assumes its: "\<forall>item\<in>set its. productId item \<in> dom (products db)"
    and code: "truthy (discountCode order) \<and> 0 < discount order
                 \<Longrightarrow> \<exists>obj. discountCodes db (the (discountCode order)) = Some obj"
  shows "\<exists>db'. persistOrder {} order its db = (Inr order, db')
           \<and> orders db' = orders db @ [order]
           \<and> products db' = snd (decrementStock {} 0 its (products db))"
proof -
  have "fst (decrementStock {} 0 its (products db))"
    using its by (intro decrementStock_ok) simp_all
  then obtain ps where ps: "decrementStock {} 0 its (products db) = (True, ps)"
    by (cases "decrementStock {} 0 its (products db)") simp
  show ?thesis
  proof (cases "truthy (discountCode order) \<and> 0 < discount order")
    case True
    from code[OF True] obtain obj where
      "discountCodes db (the (discountCode order)) = Some obj" by blast
    with True ps show ?thesis
      by (simp add: persistOrder_def incrementUsedCount_def Let_def)
  next
    case False
    with ps show ?thesis
      by (auto simp: persistOrder_def Let_def)
  qed
qed

lemma createOrder_no_fault:
  assumes v: "validateItems (products db) its 0 [] = Inr (sub, orderItems)"
    and g: "generateOrderNumber (dates env) (draws env) (orders db) 0 = Some num"
    and f: "failing env = {}"
  shows "\<exists>db2. createOrder env uid its nts code db
            = Some (Inr (buildOrder env uid nts code sub orderItems
                           (computeDiscount (discountCodes db) (now env) code sub) num), db2)
           \<and> orders db2 = orders db @ [buildOrder env uid nts code sub orderItems
                           (computeDiscount (discountCodes db) (now env) code sub) num]
           \<and> products db2 = snd (decrementStock {} 0 its (products db))"
proof -
  let ?order = "buildOrder env uid nts code sub orderItems
                  (computeDiscount (discountCodes db) (now env) code sub) num"
  have its: "\<forall>item\<in>set its. productId item \<in> dom (products db)"
    using v by (rule validateItems_Inr_dom)
  have "\<exists>obj. discountCodes db (the (discountCode ?order)) = Some obj"
    if "truthy (discountCode ?order) \<and> 0 < discount ?order"
  proof -
    from that have "0 < computeDiscount (discountCodes db) (now env) code sub"
      by (simp add: buildOrder_fields)
    from computeDiscount_pos[OF this] show ?thesis
      by (auto simp: buildOrder_fields)
  qed
  from persistOrder_no_fault[OF its this]
  show ?thesis using createOrder_Inr[OF v g] f by simp
qed

text \<open>A refused stock update at item \<open>k\<close>: the order row and the first \<open>k\<close> decrements stay.\<close>

lemma createOrder_fault_at:
  assumes v: "validateItems (products db) its 0 [] = Inr (sub, orderItems)"
    and g: "generateOrderNumber (dates env) (draws env) (orders db) 0 = Some num"
    and k: "k < length its"
    and f: "failing env = {ProductUpdate k}"
  shows "createOrder env uid its nts code db
           = Some (Inl Thrown,
               db\<lparr>orders := orders db @ [buildOrder env uid nts code sub orderItems
                           (computeDiscount (discountCodes db) (now env) code sub) num],
                  products := snd (decrementStock {} 0 (take k its) (products db))\<rparr>)"
proof -
  have its: "\<forall>item\<in>set its. productId item \<in> dom (products db)"
    using v by (rule validateItems_Inr_dom)
  have "decrementStock {ProductUpdate k} 0 its (products db)
          = (False, snd (decrementStock {} 0 (take k its) (products db)))"
    using k its by (intro decrementStock_fail_at) simp_all
  then show ?thesis
    using createOrder_Inr[OF v g] f by (simp add: persistOrder_def Let_def)
qed

section \<open>No transaction around the writes\<close>

text \<open>
  Claim C1, as the code has it. \<^verbatim>\<open>createOrder\<close> opens no transaction and releases
  nothing. Every check on the items is a read that precedes every write, so a request
  that fails a check ends with that response and the store as it was. The order row is
  written before any stock is touched, so a call never ends with the stock or a counter
  changed and no order row written. A stock update that is refused at item \<open>k\<close> ends
  the call with an error while the order row and the decrements of the first \<open>k\<close> items
  stay. With no write refused, a validated request ends with the order row written and
  every item decremented.
\<close>

theorem createOrder_no_transaction:
  "(validateItems (products db) its 0 [] = Inl e
      \<longrightarrow> createOrder env uid its nts code db = Some (Inl e, db))
   \<and> (createOrder env uid its nts code db = Some (res, db')
      \<longrightarrow> db' = db \<or> (\<exists>order. orders db' = orders db @ [order]))
   \<and> (validateItems (products db) its 0 [] = Inr (sub, orderItems)
        \<and> generateOrderNumber (dates env) (draws env) (orders db) 0 = Some num
        \<and> k < length its \<and> failing env = {ProductUpdate k}
      \<longrightarrow> createOrder env uid its nts code db
           = Some (Inl Thrown,
               db\<lparr>orders := orders db @ [buildOrder env uid nts code sub orderItems
                           (computeDiscount (discountCodes db) (now env) code sub) num],
                  products := snd (decrementStock {} 0 (take k its) (products db))\<rparr>))
   \<and> (validateItems (products db) its 0 [] = Inr (sub, orderItems)
        \<and> generateOrderNumber (dates env) (draws env) (orders db) 0 = Some num
        \<and> failing env = {}
      \<longrightarrow> (\<exists>db2. createOrder env uid its nts code db
            = Some (Inr (buildOrder env uid nts code sub orderItems
                           (computeDiscount (discountCodes db) (now env) code sub) num), db2)
           \<and> orders db2 = orders db @ [buildOrder env uid nts code sub orderItems
                           (computeDiscount (discountCodes db) (now env) code sub) num]
           \<and> products db2 = snd (decrementStock {} 0 its (products db))))"
proof (intro conjI impI)
  assume "validateItems (products db) its 0 [] = Inl e"
  then show "createOrder env uid its nts code db = Some (Inl e, db)"
    by (rule createOrder_Inl)
next
  assume c: "createOrder env uid its nts code db = Some (res, db')"
  from createOrder_Some_cases[OF c]
  show "db' = db \<or> (\<exists>order. orders db' = orders db @ [order])"
  proof
    assume "\<exists>e. validateItems (products db) its 0 [] = Inl e \<and> res = Inl e \<and> db' = db"
    then show ?thesis by blast
  next
    assume "\<exists>sub orderItems num.
           validateItems (products db) its 0 [] = Inr (sub, orderItems)
         \<and> generateOrderNumber (dates env) (draws env) (orders db) 0 = Some num
         \<and> persistOrder (failing env)
               (buildOrder env uid nts code sub orderItems
                  (computeDiscount (discountCodes db) (now env) code sub) num) its db = (res, db')"
    then obtain order where "persistOrder (failing env) order its db = (res, db')" by blast
    from persistOrder_cases[OF this] show ?thesis by blast
  qed
next
  assume "validateItems (products db) its 0 [] = Inr (sub, orderItems)
        \<and> generateOrderNumber (dates env) (draws env) (orders db) 0 = Some num
        \<and> k < length its \<and> failing env = {ProductUpdate k}"
  then show "createOrder env uid its nts code db
           = Some (Inl Thrown,
               db\<lparr>orders := orders db @ [buildOrder env uid nts code sub orderItems
                           (computeDiscount (discountCodes db) (now env) code sub) num],
                  products := snd (decrementStock {} 0 (take k its) (products db))\<rparr>)"
    by (intro createOrder_fault_at) simp_all
next
  assume "validateItems (products db) its 0 [] = Inr (sub, orderItems)
        \<and> generateOrderNumber (dates env) (draws env) (orders db) 0 = Some num
        \<and> failing env = {}"
  then show "\<exists>db2. createOrder env uid its nts code db
            = Some (Inr (buildOrder env uid nts code sub orderItems
                           (computeDiscount (discountCodes db) (now env) code sub) num), db2)
           \<and> orders db2 = orders db @ [buildOrder env uid nts code sub orderItems
                           (computeDiscount (discountCodes db) (now env) code sub) num]
           \<and> products db2 = snd (decrementStock {} 0 its (products db))"
    by (intro createOrder_no_fault) simp_all
qed

text \<open>
  Against the rollback of claim C1: products \<open>A\<close> and \<open>B\<close> have 5 in stock each, the
  request asks for one of each, and the store refuses the stock update of the second
  item. The call ends with an error; the order row is stored and \<open>A\<close> stays at 4: the
  decrement already made is not released.
\<close>

theorem createOrder_partial_writes_stay:
  "(case createOrder
      \<lparr>failing = {ProductUpdate 1},
       now = \<lparr>getTime = 50, getFullYear = 2026, getMonth = 10, getDate = 2\<rparr>,
       dates = (\<lambda>_. \<lparr>getTime = 50, getFullYear = 2026, getMonth = 10, getDate = 2\<rparr>),
       draws = (\<lambda>_. 7), newId = ''o1''\<rparr>
      ''u1'' [\<lparr>productId = ''A'', quantity = 1\<rparr>, \<lparr>productId = ''B'', quantity = 1\<rparr>] None None
      \<lparr>products = [''A'' \<mapsto> \<lparr>price = 1000, active = True, stock = 5\<rparr>,
                   ''B'' \<mapsto> \<lparr>price = 2000, active = True, stock = 5\<rparr>],
       discountCodes = Map.empty, orders = []\<rparr> of
      None \<Rightarrow> False
    | Some (res, db') \<Rightarrow>
        res = Inl Thrown
        \<and> map_option stock (products db' ''A'') = Some 4
        \<and> map_option stock (products db' ''B'') = Some 5
        \<and> map orderNumber (orders db') = [''CHE2611020007''])"
  by (simp add: createOrder_def generateOrderNumber_unfold formatOrderNumber_7 numberExists_def
        computeDiscount_def persistOrder_def buildOrder_def Let_def)

text \<open>
  The theorem of claim C1 at concrete inputs, on a store with products \<open>A\<close> and \<open>B\<close>:
  a request naming a product \<open>C\<close> that is not there, a request whose second stock
  update is refused, and the same request with no write refused.
\<close>

theorem createOrder_no_transaction_witness:
  "createOrder
      \<lparr>failing = {}, now = \<lparr>getTime = 50, getFullYear = 2026, getMonth = 10, getDate = 2\<rparr>,
       dates = (\<lambda>_. \<lparr>getTime = 50, getFullYear = 2026, getMonth = 10, getDate = 2\<rparr>),
       draws = (\<lambda>_. 7), newId = ''o1''\<rparr>
      ''u1'' [\<lparr>productId = ''A'', quantity = 1\<rparr>, \<lparr>productId = ''C'', quantity = 1\<rparr>] None None
      \<lparr>products = [''A'' \<mapsto> \<lparr>price = 1000, active = True, stock = 5\<rparr>,
                   ''B'' \<mapsto> \<lparr>price = 2000, active = True, stock = 5\<rparr>],
       discountCodes = Map.empty, orders = []\<rparr>
     = Some (Inl (Rejected 404 ''Producto no encontrado''),
      \<lparr>products = [''A'' \<mapsto> \<lparr>price = 1000, active = True, stock = 5\<rparr>,
                   ''B'' \<mapsto> \<lparr>price = 2000, active = True, stock = 5\<rparr>],
       discountCodes = Map.empty, orders = []\<rparr>)
   \<and> (case createOrder
      \<lparr>failing = {ProductUpdate 1},
       now = \<lparr>getTime = 50, getFullYear = 2026, getMonth = 10, getDate = 2\<rparr>,
       dates = (\<lambda>_. \<lparr>getTime = 50, getFullYear = 2026, getMonth = 10, getDate = 2\<rparr>),
       draws = (\<lambda>_. 7), newId = ''o1''\<rparr>
      ''u1'' [\<lparr>productId = ''A'', quantity = 1\<rparr>, \<lparr>productId = ''B'', quantity = 1\<rparr>] None None
      \<lparr>products = [''A'' \<mapsto> \<lparr>price = 1000, active = True, stock = 5\<rparr>,
                   ''B'' \<mapsto> \<lparr>price = 2000, active = True, stock = 5\<rparr>],
       discountCodes = Map.empty, orders = []\<rparr> of
      None \<Rightarrow> False
    | Some (res, db') \<Rightarrow>
        res = Inl Thrown
        \<and> map_option stock (products db' ''A'') = Some 4
        \<and> map_option stock (products db' ''B'') = Some 5
        \<and> (\<exists>order. orders db' = [] @ [order]))
   \<and> (\<exists>db2. createOrder
      \<lparr>failing = {}, now = \<lparr>getTime = 50, getFullYear = 2026, getMonth = 10, getDate = 2\<rparr>,
       dates = (\<lambda>_. \<lparr>getTime = 50, getFullYear = 2026, getMonth = 10, getDate = 2\<rparr>),
       draws = (\<lambda>_. 7), newId = ''o1''\<rparr>
      ''u1'' [\<lparr>productId = ''A'', quantity = 1\<rparr>, \<lparr>productId = ''B'', quantity = 1\<rparr>] None None
      \<lparr>products = [''A'' \<mapsto> \<lparr>price = 1000, active = True, stock = 5\<rparr>,
                   ''B'' \<mapsto> \<lparr>price = 2000, active = True, stock = 5\<rparr>],
       discountCodes = Map.empty, orders = []\<rparr>
     = Some (Inr \<lparr>orderId = ''o1'', orderNumber = ''CHE2611020007'', userId = ''u1'',
       items = [\<lparr>productId = ''A'', quantity = 1, item_price = 1000, item_total = 1000\<rparr>,
                \<lparr>productId = ''B'', quantity = 1, item_price = 2000, item_total = 2000\<rparr>],
       subtotal = 3000, discount = 0, shipping = 5000, tax = 570, total = 8570,
       deliveryStatus = PENDING, orderNotes = None, discountCode = None,
       trackingNumber = None, estimatedDelivery = None, deliveredAt = None\<rparr>, db2)
     \<and> map orderNumber (orders db2) = [''CHE2611020007'']
     \<and> map_option stock (products db2 ''A'') = Some 4
     \<and> map_option stock (products db2 ''B'') = Some 4)"
  (is "?c1 = Some (Inl ?e, ?db) \<and> (case ?c2 of None \<Rightarrow> False | Some (res, db') \<Rightarrow> ?Q res db')
       \<and> (\<exists>db2. ?c3 = Some (Inr ?order, db2) \<and> ?R db2)")
proof -
  let ?d = "\<lparr>getTime = 50, getFullYear = 2026, getMonth = 10, getDate = 2\<rparr>"
  let ?env0 = "\<lparr>failing = {}, now = ?d, dates = (\<lambda>_. ?d), draws = (\<lambda>_. 7), newId = ''o1''\<rparr>"
  let ?env1 = "\<lparr>failing = {ProductUpdate 1}, now = ?d, dates = (\<lambda>_. ?d), draws = (\<lambda>_. 7),
                newId = ''o1''\<rparr>"
  let ?bad = "[\<lparr>productId = ''A'', quantity = 1\<rparr>, \<lparr>productId = ''C'', quantity = 1\<rparr>]"
  let ?its = "[\<lparr>productId = ''A'', quantity = 1\<rparr>, \<lparr>productId = ''B'', quantity = 1\<rparr>]"
  let ?ois = "[\<lparr>productId = ''A'', quantity = 1, item_price = 1000, item_total = 1000\<rparr>,
               \<lparr>productId = ''B'', quantity = 1, item_price = 2000, item_total = 2000\<rparr>]"
  have vbad: "validateItems (products ?db) ?bad 0 [] = Inl ?e"
    by simp
  have a: "?c1 = Some (Inl ?e, ?db)"
    by (rule createOrder_no_transaction[where db = ?db and its = ?bad and env = ?env0,
          THEN conjunct1, THEN mp, OF vbad])
  have v: "validateItems (products ?db) ?its 0 [] = Inr (3000, ?ois)"
    by simp
  have g0: "generateOrderNumber (dates ?env0) (draws ?env0) (orders ?db) 0 = Some ''CHE2611020007''"
    by (simp add: generateOrderNumber_unfold formatOrderNumber_7 numberExists_def)
  have g1: "generateOrderNumber (dates ?env1) (draws ?env1) (orders ?db) 0 = Some ''CHE2611020007''"
    by (simp add: generateOrderNumber_unfold formatOrderNumber_7 numberExists_def)
  have pre3: "validateItems (products ?db) ?its 0 [] = Inr (3000, ?ois)
        \<and> generateOrderNumber (dates ?env1) (draws ?env1) (orders ?db) 0 = Some ''CHE2611020007''
        \<and> 1 < length ?its \<and> failing ?env1 = {ProductUpdate 1}"
    using v g1 by simp
  note r3 = createOrder_no_transaction[where db = ?db and its = ?its and env = ?env1
      and uid = "''u1''" and nts = None and code = None and k = 1,
      THEN conjunct2, THEN conjunct2, THEN conjunct1, THEN mp, OF pre3]
  note r2 = createOrder_no_transaction[where db = ?db and its = ?its and env = ?env1
      and uid = "''u1''" and nts = None and code = None,
      THEN conjunct2, THEN conjunct1, THEN mp, OF r3]
  have b: "case ?c2 of None \<Rightarrow> False | Some (res, db') \<Rightarrow> ?Q res db'"
    using r3 r2 by simp
  have pre4: "validateItems (products ?db) ?its 0 [] = Inr (3000, ?ois)
        \<and> generateOrderNumber (dates ?env0) (draws ?env0) (orders ?db) 0 = Some ''CHE2611020007''
        \<and> failing ?env0 = {}"
    using v g0 by simp
  note r4 = createOrder_no_transaction[where db = ?db and its = ?its and env = ?env0
      and uid = "''u1''" and nts = None and code = None,
      THEN conjunct2, THEN conjunct2, THEN conjunct2, THEN mp, OF pre4]
  have c: "\<exists>db2. ?c3 = Some (Inr ?order, db2) \<and> ?R db2"
    using r4 by (auto simp: buildOrder_def computeDiscount_def Let_def)
  from a b c show ?thesis by (intro conjI)
qed

section \<open>The totals\<close>

text \<open>
  Over exact numbers the stored total is the taxed base plus the flat shipping fee. The
  handler computes in floating point; what rounding does to this equation is outside
  this model.
\<close>

lemma buildOrder_total_exact:
  "total (buildOrder env uid nts code sub orderItems disc num)
     = (sub - disc) * (1 + 19 / 100) + 5000"
  by (simp add: buildOrder_def Let_def field_simps)

section \<open>The usage counter\<close>

lemma validateItems_Inl:
  "validateItems ps its sub acc = Inl e \<Longrightarrow> e \<noteq> Thrown"
  by (induction its arbitrary: sub acc)
     (auto simp: Let_def split: option.splits if_splits)

text \<open>With no write refused, \<^verbatim>\<open>createOrder\<close> ends in a response of its own.\<close>

lemma createOrder_no_fault_not_Thrown:
  assumes c: "createOrder env uid its nts code db = Some (res, db')"
    and f: "failing env = {}"
  shows "res \<noteq> Inl Thrown"
  using createOrder_Some_cases[OF c]
proof
  assume "\<exists>e. validateItems (products db) its 0 [] = Inl e \<and> res = Inl e \<and> db' = db"
  then show ?thesis using validateItems_Inl by blast
next
  assume "\<exists>sub orderItems num.
           validateItems (products db) its 0 [] = Inr (sub, orderItems)
         \<and> generateOrderNumber (dates env) (draws env) (orders db) 0 = Some num
         \<and> persistOrder (failing env)
               (buildOrder env uid nts code sub orderItems
                  (computeDiscount (discountCodes db) (now env) code sub) num) its db = (res, db')"
  then obtain sub orderItems num where
    v: "validateItems (products db) its 0 [] = Inr (sub, orderItems)"
    and g: "generateOrderNumber (dates env) (draws env) (orders db) 0 = Some num"
    by blast
  from createOrder_no_fault[OF v g f, of uid nts code] c show ?thesis by auto
qed

text \<open>
  What a call does to the table of codes: nothing when it ends in an error; when it
  creates an order, one increment of the supplied code's counter if the discount is
  positive and nothing otherwise.
\<close>

lemma createOrder_discountCodes:
  assumes "createOrder env uid its nts code db = Some (res, db')"
  shows "case res of
           Inl e \<Rightarrow> discountCodes db' = discountCodes db
         | Inr order \<Rightarrow>
             discount order
               = computeDiscount (discountCodes db) (now env) code (subtotal order)
             \<and> (if 0 < discount order
                 then \<exists>c obj. code = Some c \<and> discountCodes db c = Some obj
                        \<and> discountCodes db'
                            = (discountCodes db)(c \<mapsto> obj\<lparr>usedCount := usedCount obj + 1\<rparr>)
                 else discountCodes db' = discountCodes db)"
  using createOrder_Some_cases[OF assms]
proof
  assume "\<exists>e. validateItems (products db) its 0 [] = Inl e \<and> res = Inl e \<and> db' = db"
  then show ?thesis by auto
next
  assume "\<exists>sub orderItems num.
         validateItems (products db) its 0 [] = Inr (sub, orderItems)
       \<and> generateOrderNumber (dates env) (draws env) (orders db) 0 = Some num
       \<and> persistOrder (failing env)
             (buildOrder env uid nts code sub orderItems
                (computeDiscount (discountCodes db) (now env) code sub) num) its db = (res, db')"
  then obtain sub orderItems num where
    p: "persistOrder (failing env)
             (buildOrder env uid nts code sub orderItems
                (computeDiscount (discountCodes db) (now env) code sub) num) its db = (res, db')"
    by blast
  let ?disc = "computeDiscount (discountCodes db) (now env) code sub"
  let ?order = "buildOrder env uid nts code sub orderItems ?disc num"
  show ?thesis
  proof (cases res)
    case (Inl e)
    with persistOrder_Inl[of "failing env" ?order its db e db'] p show ?thesis by simp
  next
    case (Inr o')
    from persistOrder_Inr[of "failing env" ?order its db o' db'] p Inr
    have o': "o' = ?order"
      and upd: "if truthy code \<and> 0 < ?disc
         then incrementUsedCount (failing env) (the code) (discountCodes db)
                = Some (discountCodes db')
         else discountCodes db' = discountCodes db"
      by (simp_all add: buildOrder_fields cong: if_cong)
    have d: "discount o' = ?disc" and s: "subtotal o' = sub"
      using o' by (simp_all add: buildOrder_fields)
    show ?thesis
    proof (cases "0 < ?disc")
      case True
      from computeDiscount_pos[OF True] obtain c where c: "code = Some c" "c \<noteq> []"
        by blast
      with True upd have "incrementUsedCount (failing env) c (discountCodes db)
                            = Some (discountCodes db')" by simp
      then obtain obj where "discountCodes db c = Some obj"
        "discountCodes db' = (discountCodes db)(c \<mapsto> obj\<lparr>usedCount := usedCount obj + 1\<rparr>)"
        by (auto simp: incrementUsedCount_def split: if_splits option.splits)
      with True c d s Inr show ?thesis by simp
    next
      case False
      with upd d s Inr show ?thesis by simp
    qed
  qed
qed

text \<open>A code whose checks all pass gives the clamped discount; any other gives zero.\<close>

lemma computeDiscount_accepted:
  assumes "codes c = Some obj" "c \<noteq> []" "dc_active obj"
    and "validFrom obj \<le> getTime today" "getTime today \<le> validUntil obj"
    and "usesLeft obj" "reachesMinAmount obj sub"
  shows "computeDiscount codes today (Some c) sub
           = (case maxDiscount obj of
                None \<Rightarrow> rawDiscount obj sub
              | Some cap \<Rightarrow> min (rawDiscount obj sub) cap)"
  using assms
  by (auto simp: computeDiscount_def clampDiscount_def split: option.splits)

lemma computeDiscount_rejected:
  assumes "code = None \<or> code = Some [] \<or> (\<exists>c. code = Some c \<and> (case codes c of
             None \<Rightarrow> True
           | Some obj \<Rightarrow> \<not> dc_active obj \<or> getTime today < validFrom obj
               \<or> validUntil obj < getTime today \<or> \<not> usesLeft obj
               \<or> \<not> reachesMinAmount obj sub))"
  shows "computeDiscount codes today code sub = 0"
  using assms
  by (auto simp: computeDiscount_def split: option.splits)

lemma computeDiscount_pos_usesLeft:
  "0 < computeDiscount codes today (Some c) sub \<Longrightarrow> codes c = Some obj \<Longrightarrow> usesLeft obj"
  by (auto simp: computeDiscount_def split: option.splits if_splits)

text \<open>
  A cap other than zero is kept: a counter within its cap stays within it through every
  call, and a counter that has reached its cap does not move.
\<close>

lemma createOrder_nonzero_cap_kept:
  assumes c: "createOrder env uid its nts code db = Some (res, db')"
    and obj: "discountCodes db k = Some obj"
    and cap: "maxUses obj = Some m" "m \<noteq> 0" "usedCount obj \<le> m"
  shows "\<exists>obj'. discountCodes db' k = Some obj' \<and> maxUses obj' = Some m
           \<and> usedCount obj' \<le> m \<and> (usedCount obj = m \<longrightarrow> usedCount obj' = m)"
proof (cases res)
  case (Inl e)
  with createOrder_discountCodes[OF c] obj cap show ?thesis by simp
next
  case (Inr order)
  note both = createOrder_discountCodes[OF c, unfolded Inr sum.case]
  from both have d: "discount order
             = computeDiscount (discountCodes db) (now env) code (subtotal order)"
    by (rule conjunct1)
  from both have upd: "if 0 < discount order
       then \<exists>c obj. code = Some c \<and> discountCodes db c = Some obj
              \<and> discountCodes db'
                  = (discountCodes db)(c \<mapsto> obj\<lparr>usedCount := usedCount obj + 1\<rparr>)
       else discountCodes db' = discountCodes db"
    by (rule conjunct2)
  show ?thesis
  proof (cases "0 < discount order")
    case False
    with upd obj cap show ?thesis by simp
  next
    case True
    with upd obtain c' obj0 where u: "code = Some c'" "discountCodes db c' = Some obj0"
      "discountCodes db' = (discountCodes db)(c' \<mapsto> obj0\<lparr>usedCount := usedCount obj0 + 1\<rparr>)"
      by auto
    show ?thesis
    proof (cases "k = c'")
      case False
      with u obj cap show ?thesis by simp
    next
      case same: True
      with u obj have o0: "obj0 = obj" by simp
      from True d u have "0 < computeDiscount (discountCodes db) (now env) (Some c')
                                (subtotal order)" by simp
      from computeDiscount_pos_usesLeft[OF this u(2)] o0 cap
      have "usedCount obj < m" by (simp add: usesLeft_def)
      with u same o0 cap show ?thesis by simp
    qed
  qed
qed

text \<open>
  A call returns unless its request passes the checks and the order number loop runs for
  ever; the loop comes before every write.
\<close>

lemma createOrder_None_iff:
  "createOrder env uid its nts code db = None \<longleftrightarrow>
     (\<exists>r. validateItems (products db) its 0 [] = Inr r)
     \<and> generateOrderNumber (dates env) (draws env) (orders db) 0 = None"
  by (auto simp: createOrder_def Let_def split: sum.splits option.splits)

text \<open>
  A refused counter update: the order, carrying its positive discount, and the stock
  updates stay, and the counter does not move.
\<close>

lemma createOrder_counter_refused:
  assumes v: "validateItems (products db) its 0 [] = Inr (sub, orderItems)"
    and g: "generateOrderNumber (dates env) (draws env) (orders db) 0 = Some num"
    and f: "failing env = {DiscountCodeUpdate}"
    and d: "0 < computeDiscount (discountCodes db) (now env) code sub"
  shows "\<exists>db2. createOrder env uid its nts code db = Some (Inl Thrown, db2)
           \<and> orders db2 = orders db @ [buildOrder env uid nts code sub orderItems
                           (computeDiscount (discountCodes db) (now env) code sub) num]
           \<and> discountCodes db2 = discountCodes db"
proof -
  let ?order = "buildOrder env uid nts code sub orderItems
                  (computeDiscount (discountCodes db) (now env) code sub) num"
  have its: "\<forall>item\<in>set its. productId item \<in> dom (products db)"
    using v by (rule validateItems_Inr_dom)
  have "fst (decrementStock {DiscountCodeUpdate} 0 its (products db))"
    using its by (intro decrementStock_ok) simp_all
  then obtain ps where ps: "decrementStock {DiscountCodeUpdate} 0 its (products db) = (True, ps)"
    by (cases "decrementStock {DiscountCodeUpdate} 0 its (products db)") simp
  from computeDiscount_pos[OF d] have t: "truthy code" by auto
  have "persistOrder {DiscountCodeUpdate} ?order its db
          = (Inl Thrown, db\<lparr>orders := orders db @ [?order], products := ps\<rparr>)"
    using ps t d
    by (simp add: persistOrder_def incrementUsedCount_def buildOrder_fields Let_def)
  then show ?thesis
    using createOrder_Inr[OF v g] f by simp
qed

text \<open>
  Claim C10, as the code has it. A call that returns an error leaves every usage counter
  as it was. A call that returns the created order stores the discount it computed, and
  when that discount is positive the counter of the supplied code, and nothing else in
  the table of codes, goes up by one; when it is not positive the table of codes is
  unchanged. With no write refused, a call that returns ends in a rejection of its own
  or in the created order. With the counter update refused and a positive discount, the
  call ends in an error with the order stored and the table of codes unchanged. The call
  does not return exactly when the request passes the checks and the order number loop
  runs for ever.
\<close>

theorem createOrder_usedCount:
  "(createOrder env uid its nts code db = Some (res, db')
      \<longrightarrow> (case res of
            Inl e \<Rightarrow> discountCodes db' = discountCodes db
          | Inr order \<Rightarrow>
              discount order
                = computeDiscount (discountCodes db) (now env) code (subtotal order)
              \<and> (if 0 < discount order
                  then \<exists>c obj. code = Some c \<and> discountCodes db c = Some obj
                         \<and> discountCodes db'
                             = (discountCodes db)(c \<mapsto> obj\<lparr>usedCount := usedCount obj + 1\<rparr>)
                  else discountCodes db' = discountCodes db)))
   \<and> (createOrder env uid its nts code db = Some (res, db') \<and> failing env = {}
      \<longrightarrow> res \<noteq> Inl Thrown)
   \<and> (validateItems (products db) its 0 [] = Inr (sub, orderItems)
        \<and> generateOrderNumber (dates env) (draws env) (orders db) 0 = Some num
        \<and> failing env = {DiscountCodeUpdate}
        \<and> 0 < computeDiscount (discountCodes db) (now env) code sub
      \<longrightarrow> (\<exists>db2. createOrder env uid its nts code db = Some (Inl Thrown, db2)
           \<and> orders db2 = orders db @ [buildOrder env uid nts code sub orderItems
                           (computeDiscount (discountCodes db) (now env) code sub) num]
           \<and> discountCodes db2 = discountCodes db))
   \<and> ((createOrder env uid its nts code db = None)
        = ((\<exists>r. validateItems (products db) its 0 [] = Inr r)
           \<and> generateOrderNumber (dates env) (draws env) (orders db) 0 = None))"
proof (intro conjI impI)
  assume "createOrder env uid its nts code db = Some (res, db')"
  then show "case res of
            Inl e \<Rightarrow> discountCodes db' = discountCodes db
          | Inr order \<Rightarrow>
              discount order
                = computeDiscount (discountCodes db) (now env) code (subtotal order)
              \<and> (if 0 < discount order
                  then \<exists>c obj. code = Some c \<and> discountCodes db c = Some obj
                         \<and> discountCodes db'
                             = (discountCodes db)(c \<mapsto> obj\<lparr>usedCount := usedCount obj + 1\<rparr>)
                  else discountCodes db' = discountCodes db)"
    by (rule createOrder_discountCodes)
next
  assume "createOrder env uid its nts code db = Some (res, db') \<and> failing env = {}"
  then show "res \<noteq> Inl Thrown"
    by (intro createOrder_no_fault_not_Thrown[of env uid its nts code db res db']) simp_all
next
  assume "validateItems (products db) its 0 [] = Inr (sub, orderItems)
        \<and> generateOrderNumber (dates env) (draws env) (orders db) 0 = Some num
        \<and> failing env = {DiscountCodeUpdate}
        \<and> 0 < computeDiscount (discountCodes db) (now env) code sub"
  then show "\<exists>db2. createOrder env uid its nts code db = Some (Inl Thrown, db2)
           \<and> orders db2 = orders db @ [buildOrder env uid nts code sub orderItems
                           (computeDiscount (discountCodes db) (now env) code sub) num]
           \<and> discountCodes db2 = discountCodes db"
    by (intro createOrder_counter_refused) simp_all
next
  show "(createOrder env uid its nts code db = None)
        = ((\<exists>r. validateItems (products db) its 0 [] = Inr r)
           \<and> generateOrderNumber (dates env) (draws env) (orders db) 0 = None)"
    by (rule createOrder_None_iff)
qed

text \<open>
  Against the ``if and only if'' of claim C10: product \<open>P\<close> at 25000, the code
  \<open>BIENVENIDO10\<close> valid and unused, and a store that refuses the counter update. The
  computed discount is 2500 and the order that carries it is stored, yet the call ends
  in an error and the counter stays at 0.
\<close>

theorem createOrder_discount_without_increment:
  "(case createOrder
      \<lparr>failing = {DiscountCodeUpdate},
       now = \<lparr>getTime = 50, getFullYear = 2026, getMonth = 10, getDate = 2\<rparr>,
       dates = (\<lambda>_. \<lparr>getTime = 50, getFullYear = 2026, getMonth = 10, getDate = 2\<rparr>),
       draws = (\<lambda>_. 7), newId = ''o1''\<rparr>
      ''u1'' [\<lparr>productId = ''P'', quantity = 1\<rparr>] None (Some ''BIENVENIDO10'')
      \<lparr>products = [''P'' \<mapsto> \<lparr>price = 25000, active = True, stock = 5\<rparr>],
       discountCodes = [''BIENVENIDO10'' \<mapsto>
         \<lparr>dc_active = True, dc_type = PERCENTAGE, dc_value = 10, minAmount = Some 20000,
          maxDiscount = None, maxUses = Some 100, usedCount = 0, validFrom = 0,
          validUntil = 100\<rparr>],
       orders = []\<rparr> of
      None \<Rightarrow> False
    | Some (res, db') \<Rightarrow>
        res = Inl Thrown
        \<and> map discount (orders db') = [2500]
        \<and> map_option stock (products db' ''P'') = Some 4
        \<and> map_option usedCount (discountCodes db' ''BIENVENIDO10'') = Some 0)"
  by (simp add: createOrder_def generateOrderNumber_unfold formatOrderNumber_7 numberExists_def
        computeDiscount_def usesLeft_def reachesMinAmount_def clampDiscount_def rawDiscount_def
        persistOrder_def incrementUsedCount_def buildOrder_def Let_def)

text \<open>
  The theorem of claim C10 at concrete inputs: product \<open>P\<close> at 25000 and the seeded code
  \<open>BIENVENIDO10\<close> (10 percent from 20000 on, at most 100 uses, valid from 0 to 100). At
  time 50 the discount is 2500 and the counter goes from 0 to 1; at time 200 the code has
  expired, the discount is 0 and the counter stays at 0; with the counter update refused
  the order with its discount of 2500 is stored and the counter stays at 0; and with
  \<open>CHE2611020007\<close> stored and every draw a 7 the call does not return.
\<close>

theorem createOrder_usedCount_witness:
  "(case createOrder
      \<lparr>failing = {}, now = \<lparr>getTime = 50, getFullYear = 2026, getMonth = 10, getDate = 2\<rparr>,
       dates = (\<lambda>_. \<lparr>getTime = 50, getFullYear = 2026, getMonth = 10, getDate = 2\<rparr>),
       draws = (\<lambda>_. 7), newId = ''o1''\<rparr>
      ''u1'' [\<lparr>productId = ''P'', quantity = 1\<rparr>] None (Some ''BIENVENIDO10'')
      \<lparr>products = [''P'' \<mapsto> \<lparr>price = 25000, active = True, stock = 5\<rparr>],
       discountCodes = [''BIENVENIDO10'' \<mapsto>
         \<lparr>dc_active = True, dc_type = PERCENTAGE, dc_value = 10, minAmount = Some 20000,
          maxDiscount = None, maxUses = Some 100, usedCount = 0, validFrom = 0,
          validUntil = 100\<rparr>],
       orders = []\<rparr> of
      Some (Inr order, db') \<Rightarrow>
        discount order = 2500
        \<and> map_option usedCount (discountCodes db' ''BIENVENIDO10'') = Some 1
        \<and> Inr order \<noteq> (Inl Thrown :: failure + Order)
    | _ \<Rightarrow> False)
   \<and> (case createOrder
      \<lparr>failing = {}, now = \<lparr>getTime = 200, getFullYear = 2026, getMonth = 10, getDate = 2\<rparr>,
       dates = (\<lambda>_. \<lparr>getTime = 50, getFullYear = 2026, getMonth = 10, getDate = 2\<rparr>),
       draws = (\<lambda>_. 7), newId = ''o1''\<rparr>
      ''u1'' [\<lparr>productId = ''P'', quantity = 1\<rparr>] None (Some ''BIENVENIDO10'')
      \<lparr>products = [''P'' \<mapsto> \<lparr>price = 25000, active = True, stock = 5\<rparr>],
       discountCodes = [''BIENVENIDO10'' \<mapsto>
         \<lparr>dc_active = True, dc_type = PERCENTAGE, dc_value = 10, minAmount = Some 20000,
          maxDiscount = None, maxUses = Some 100, usedCount = 0, validFrom = 0,
          validUntil = 100\<rparr>],
       orders = []\<rparr> of
      Some (Inr order, db') \<Rightarrow>
        discount order = 0
        \<and> map_option usedCount (discountCodes db' ''BIENVENIDO10'') = Some 0
    | _ \<Rightarrow> False)
   \<and> (\<exists>db2. createOrder
      \<lparr>failing = {DiscountCodeUpdate},
       now = \<lparr>getTime = 50, getFullYear = 2026, getMonth = 10, getDate = 2\<rparr>,
       dates = (\<lambda>_. \<lparr>getTime = 50, getFullYear = 2026, getMonth = 10, getDate = 2\<rparr>),
       draws = (\<lambda>_. 7), newId = ''o1''\<rparr>
      ''u1'' [\<lparr>productId = ''P'', quantity = 1\<rparr>] None (Some ''BIENVENIDO10'')
      \<lparr>products = [''P'' \<mapsto> \<lparr>price = 25000, active = True, stock = 5\<rparr>],
       discountCodes = [''BIENVENIDO10'' \<mapsto>
         \<lparr>dc_active = True, dc_type = PERCENTAGE, dc_value = 10, minAmount = Some 20000,
          maxDiscount = None, maxUses = Some 100, usedCount = 0, validFrom = 0,
          validUntil = 100\<rparr>],
       orders = []\<rparr> = Some (Inl Thrown, db2)
      \<and> map discount (orders db2) = [2500]
      \<and> map_option usedCount (discountCodes db2 ''BIENVENIDO10'') = Some 0)
   \<and> createOrder
      \<lparr>failing = {}, now = \<lparr>getTime = 50, getFullYear = 2026, getMonth = 10, getDate = 2\<rparr>,
       dates = (\<lambda>_. \<lparr>getTime = 50, getFullYear = 2026, getMonth = 10, getDate = 2\<rparr>),
       draws = (\<lambda>_. 7), newId = ''o1''\<rparr>
      ''u1'' [] None None
      \<lparr>products = Map.empty, discountCodes = Map.empty,
       orders = [\<lparr>orderId = ''o0'', orderNumber = ''CHE2611020007'', userId = ''u0'', items = [],
         subtotal = 0, discount = 0, shipping = 5000, tax = 0, total = 5000,
         deliveryStatus = PENDING, orderNotes = None, discountCode = None,
         trackingNumber = None, estimatedDelivery = None, deliveredAt = None\<rparr>]\<rparr>
     = None"
  (is "(case ?c1 of Some (Inr order, db') \<Rightarrow> ?Q1 order db' | _ \<Rightarrow> False)
     \<and> (case ?c2 of Some (Inr order, db') \<Rightarrow> ?Q2 order db' | _ \<Rightarrow> False)
     \<and> (\<exists>db2. ?c3 = Some (Inl Thrown, db2) \<and> ?Q3 db2)
     \<and> createOrder ?env4 ''u1'' [] None None ?db4 = None")
proof -
  let ?d = "\<lparr>getTime = 50, getFullYear = 2026, getMonth = 10, getDate = 2\<rparr>"
  let ?item = "\<lparr>productId = ''P'', quantity = 1, item_price = 25000, item_total = 25000\<rparr>"
  let ?obj = "\<lparr>dc_active = True, dc_type = PERCENTAGE, dc_value = 10, minAmount = Some 20000,
          maxDiscount = None, maxUses = Some 100, usedCount = 0, validFrom = 0,
          validUntil = 100\<rparr>"
  let ?db = "\<lparr>products = [''P'' \<mapsto> \<lparr>price = 25000, active = True, stock = 5\<rparr>],
       discountCodes = [''BIENVENIDO10'' \<mapsto> ?obj], orders = []\<rparr>"
  let ?env1 = "\<lparr>failing = {}, now = ?d, dates = (\<lambda>_. ?d), draws = (\<lambda>_. 7), newId = ''o1''\<rparr>"
  let ?env3 = "\<lparr>failing = {DiscountCodeUpdate}, now = ?d, dates = (\<lambda>_. ?d), draws = (\<lambda>_. 7),
                newId = ''o1''\<rparr>"
  let ?its = "[\<lparr>productId = ''P'', quantity = 1\<rparr>]"
  let ?o1 = "\<lparr>orderId = ''o1'', orderNumber = ''CHE2611020007'', userId = ''u1'',
       items = [?item], subtotal = 25000, discount = 2500, shipping = 5000, tax = 4275,
       total = 31775, deliveryStatus = PENDING, orderNotes = None,
       discountCode = Some ''BIENVENIDO10'',
       trackingNumber = None, estimatedDelivery = None, deliveredAt = None\<rparr>"
  let ?o2 = "\<lparr>orderId = ''o1'', orderNumber = ''CHE2611020007'', userId = ''u1'',
       items = [?item], subtotal = 25000, discount = 0, shipping = 5000, tax = 4750,
       total = 34750, deliveryStatus = PENDING, orderNotes = None,
       discountCode = Some ''BIENVENIDO10'',
       trackingNumber = None, estimatedDelivery = None, deliveredAt = None\<rparr>"
  let ?db1 = "\<lparr>products = [''P'' \<mapsto> \<lparr>price = 25000, active = True, stock = 4\<rparr>],
       discountCodes = [''BIENVENIDO10'' \<mapsto> ?obj\<lparr>usedCount := 1\<rparr>], orders = [?o1]\<rparr>"
  let ?db2 = "\<lparr>products = [''P'' \<mapsto> \<lparr>price = 25000, active = True, stock = 4\<rparr>],
       discountCodes = [''BIENVENIDO10'' \<mapsto> ?obj], orders = [?o2]\<rparr>"
  have e1: "?c1 = Some (Inr ?o1, ?db1)"
    by (simp add: createOrder_def generateOrderNumber_unfold formatOrderNumber_7 numberExists_def
          computeDiscount_def usesLeft_def reachesMinAmount_def clampDiscount_def rawDiscount_def
          persistOrder_def incrementUsedCount_def buildOrder_def Let_def)
  have e2: "?c2 = Some (Inr ?o2, ?db2)"
    by (simp add: createOrder_def generateOrderNumber_unfold formatOrderNumber_7 numberExists_def
          computeDiscount_def usesLeft_def reachesMinAmount_def clampDiscount_def rawDiscount_def
          persistOrder_def incrementUsedCount_def buildOrder_def Let_def)
  note t1 = createOrder_usedCount[THEN conjunct1, THEN mp, OF e1]
  note t2 = createOrder_usedCount[THEN conjunct1, THEN mp, OF e2]
  have pre1: "?c1 = Some (Inr ?o1, ?db1) \<and> failing ?env1 = {}"
    using e1 by simp
  note n1 = createOrder_usedCount[where env = ?env1 and res = "Inr ?o1" and db' = ?db1,
      THEN conjunct2, THEN conjunct1, THEN mp, OF pre1]
  have a: "?Q1 ?o1 ?db1" using t1 n1 by auto
  have b: "?Q2 ?o2 ?db2" using t2 by (auto split: if_splits)
  have v: "validateItems (products ?db) ?its 0 [] = Inr (25000, [?item])"
    by simp
  have g: "generateOrderNumber (dates ?env3) (draws ?env3) (orders ?db) 0 = Some ''CHE2611020007''"
    by (simp add: generateOrderNumber_unfold formatOrderNumber_7 numberExists_def)
  have disc: "computeDiscount (discountCodes ?db) (now ?env3) (Some ''BIENVENIDO10'') 25000 = 2500"
    by (simp add: computeDiscount_def usesLeft_def reachesMinAmount_def clampDiscount_def
          rawDiscount_def)
  have pre3: "validateItems (products ?db) ?its 0 [] = Inr (25000, [?item])
        \<and> generateOrderNumber (dates ?env3) (draws ?env3) (orders ?db) 0 = Some ''CHE2611020007''
        \<and> failing ?env3 = {DiscountCodeUpdate}
        \<and> 0 < computeDiscount (discountCodes ?db) (now ?env3) (Some ''BIENVENIDO10'') 25000"
    using v g disc by simp
  note r3 = createOrder_usedCount[where db = ?db and its = ?its and env = ?env3
      and uid = "''u1''" and nts = None and code = "Some ''BIENVENIDO10''",
      THEN conjunct2, THEN conjunct2, THEN conjunct1, THEN mp, OF pre3]
  have c: "\<exists>db2. ?c3 = Some (Inl Thrown, db2) \<and> ?Q3 db2"
    using r3 disc by (auto simp: buildOrder_def Let_def)
  have pre4: "(\<exists>r. validateItems (products ?db4) [] 0 [] = Inr r)
           \<and> generateOrderNumber (dates ?env4) (draws ?env4) (orders ?db4) 0 = None"
    by (simp add: generateOrderNumber_None formatOrderNumber_7 numberExists_def)
  have d: "createOrder ?env4 ''u1'' [] None None ?db4 = None"
    by (rule createOrder_usedCount[where db = ?db4 and its = "[]" and env = ?env4,
          THEN conjunct2, THEN conjunct2, THEN conjunct2, THEN iffD2, OF pre4])
  from a b c d show ?thesis by (simp add: e1 e2)
qed

section \<open>A usage cap of zero\<close>

text \<open>
  Claim C5 at a code whose cap is 0: \<open>BIENVENIDO10\<close> with \<^verbatim>\<open>maxUses = 0\<close> and
  \<^verbatim>\<open>usedCount = 0\<close>, so the cap is reached. \<^verbatim>\<open>!discountCodeObj.maxUses\<close> is true for
  the number 0, the code is applied, and the counter goes to 1, above the cap.
\<close>

theorem createOrder_zero_cap_usedCount:
  "(case createOrder
      \<lparr>failing = {}, now = \<lparr>getTime = 50, getFullYear = 2026, getMonth = 10, getDate = 2\<rparr>,
       dates = (\<lambda>_. \<lparr>getTime = 50, getFullYear = 2026, getMonth = 10, getDate = 2\<rparr>),
       draws = (\<lambda>_. 7), newId = ''o1''\<rparr>
      ''u1'' [\<lparr>productId = ''P'', quantity = 1\<rparr>] None (Some ''BIENVENIDO10'')
      \<lparr>products = [''P'' \<mapsto> \<lparr>price = 25000, active = True, stock = 5\<rparr>],
       discountCodes = [''BIENVENIDO10'' \<mapsto>
         \<lparr>dc_active = True, dc_type = PERCENTAGE, dc_value = 10, minAmount = Some 20000,
          maxDiscount = None, maxUses = Some 0, usedCount = 0, validFrom = 0,
          validUntil = 100\<rparr>],
       orders = []\<rparr> of
      Some (Inr order, db') \<Rightarrow>
        map_option usedCount (discountCodes db' ''BIENVENIDO10'') = Some 1
        \<and> map_option maxUses (discountCodes db' ''BIENVENIDO10'') = Some (Some 0)
    | _ \<Rightarrow> False)"
  by (simp add: createOrder_def generateOrderNumber_unfold formatOrderNumber_7 numberExists_def
        computeDiscount_def usesLeft_def reachesMinAmount_def clampDiscount_def rawDiscount_def
        persistOrder_def incrementUsedCount_def buildOrder_def Let_def)

text \<open>
  Claim C8 at a code whose cap is 0: the seeded code \<open>CAFE5MIL\<close> (5000 off from 30000
  on) with \<^verbatim>\<open>maxUses = 0\<close> and \<^verbatim>\<open>usedCount = 0\<close>. The cap is reached, yet the order
  is created with a discount of 5000.
\<close>

theorem createOrder_zero_cap_discount:
  "(case createOrder
      \<lparr>failing = {}, now = \<lparr>getTime = 50, getFullYear = 2026, getMonth = 10, getDate = 2\<rparr>,
       dates = (\<lambda>_. \<lparr>getTime = 50, getFullYear = 2026, getMonth = 10, getDate = 2\<rparr>),
       draws = (\<lambda>_. 7), newId = ''o1''\<rparr>
      ''u1'' [\<lparr>productId = ''P'', quantity = 2\<rparr>] None (Some ''CAFE5MIL'')
      \<lparr>products = [''P'' \<mapsto> \<lparr>price = 25000, active = True, stock = 5\<rparr>],
       discountCodes = [''CAFE5MIL'' \<mapsto>
         \<lparr>dc_active = True, dc_type = FIXED_AMOUNT, dc_value = 5000, minAmount = Some 30000,
          maxDiscount = None, maxUses = Some 0, usedCount = 0, validFrom = 0,
          validUntil = 100\<rparr>],
       orders = []\<rparr> of
      Some (Inr order, db') \<Rightarrow> subtotal order = 50000 \<and> discount order = 5000
    | _ \<Rightarrow> False)"
  by (simp add: createOrder_def generateOrderNumber_unfold formatOrderNumber_7 numberExists_def
        computeDiscount_def usesLeft_def reachesMinAmount_def clampDiscount_def rawDiscount_def
        persistOrder_def incrementUsedCount_def buildOrder_def Let_def)

section \<open>Cancelling\<close>

text \<open>The cancellation keeps the key and the owner of every order row.\<close>

lemma find_map_preserving:
  "(\<And>x. P (f x) = P x) \<Longrightarrow> find P (map f xs) = map_option f (find P xs)"
  by (induction xs) simp_all












section \<open>A caller who does not own the order\<close>

lemma findOrder_None_iff:
  "findOrder oid caller os = None \<longleftrightarrow>
     (\<forall>order\<in>set os. orderId order = oid
        \<longrightarrow> role caller \<noteq> ''ADMIN'' \<and> userId order \<noteq> callerId caller)"
  by (auto simp: findOrder_def find_None_iff)

lemma distinct_orderId_unique:
  assumes "distinct (map orderId os)" "x \<in> set os" "y \<in> set os" "orderId x = orderId y"
  shows "x = y"
  using assms by (meson distinct_map inj_onD)

text \<open>
  Claim C9, as the code has it. Order keys being unique, a caller who is not an admin
  and asks to cancel an existing order of another user gets status 404 with the message
  \<open>Orden no encontrada\<close> and the store is unchanged, whatever the store would refuse;
  that is the very response any caller gets for a key that no order has.
\<close>

theorem cancelOrder_not_owner_not_found:
  "(distinct (map orderId (orders db)) \<and> order \<in> set (orders db) \<and> orderId order = oid
      \<and> userId order \<noteq> callerId caller \<and> role caller \<noteq> ''ADMIN''
    \<longrightarrow> cancelOrder bad oid caller reason db = (Inl (Rejected 404 ''Orden no encontrada''), db))
   \<and> ((\<forall>order\<in>set (orders db). orderId order \<noteq> oid)
    \<longrightarrow> cancelOrder bad oid caller reason db = (Inl (Rejected 404 ''Orden no encontrada''), db))"
proof (intro conjI impI)
  assume a: "distinct (map orderId (orders db)) \<and> order \<in> set (orders db) \<and> orderId order = oid
      \<and> userId order \<noteq> callerId caller \<and> role caller \<noteq> ''ADMIN''"
  have "findOrder oid caller (orders db) = None"
    unfolding findOrder_None_iff
  proof (intro ballI impI)
    fix x assume x: "x \<in> set (orders db)" "orderId x = oid"
    with a have "x = order" by (intro distinct_orderId_unique[of "orders db"]) simp_all
    with a show "role caller \<noteq> ''ADMIN'' \<and> userId x \<noteq> callerId caller" by simp
  qed
  then show "cancelOrder bad oid caller reason db = (Inl (Rejected 404 ''Orden no encontrada''), db)"
    by (simp add: cancelOrder_def)
next
  assume "\<forall>order\<in>set (orders db). orderId order \<noteq> oid"
  then have "findOrder oid caller (orders db) = None"
    unfolding findOrder_None_iff by blast
  then show "cancelOrder bad oid caller reason db = (Inl (Rejected 404 ''Orden no encontrada''), db)"
    by (simp add: cancelOrder_def)
qed

text \<open>
  Against the \<open>Forbidden\<close> of claim C9: user \<open>u2\<close>, a customer, asks to cancel the order
  \<open>o1\<close> of user \<open>u1\<close>, and then an order \<open>o9\<close> that does not exist. Both calls end
  with the same status 404 and the same message.
\<close>

theorem cancelOrder_other_user_gets_404:
  "cancelOrder {} ''o1'' \<lparr>callerId = ''u2'', role = ''CUSTOMER''\<rparr> None
      \<lparr>products = [''P'' \<mapsto> \<lparr>price = 1000, active = True, stock = 4\<rparr>],
       discountCodes = Map.empty,
       orders = [\<lparr>orderId = ''o1'', orderNumber = ''CHE2611020007'', userId = ''u1'',
         items = [\<lparr>productId = ''P'', quantity = 1, item_price = 1000, item_total = 1000\<rparr>],
         subtotal = 1000, discount = 0, shipping = 5000, tax = 190, total = 6190,
         deliveryStatus = PENDING, orderNotes = None, discountCode = None,
         trackingNumber = None, estimatedDelivery = None, deliveredAt = None\<rparr>]\<rparr>
    = (Inl (Rejected 404 ''Orden no encontrada''),
      \<lparr>products = [''P'' \<mapsto> \<lparr>price = 1000, active = True, stock = 4\<rparr>],
       discountCodes = Map.empty,
       orders = [\<lparr>orderId = ''o1'', orderNumber = ''CHE2611020007'', userId = ''u1'',
         items = [\<lparr>productId = ''P'', quantity = 1, item_price = 1000, item_total = 1000\<rparr>],
         subtotal = 1000, discount = 0, shipping = 5000, tax = 190, total = 6190,
         deliveryStatus = PENDING, orderNotes = None, discountCode = None,
         trackingNumber = None, estimatedDelivery = None, deliveredAt = None\<rparr>]\<rparr>)
   \<and> cancelOrder {} ''o9'' \<lparr>callerId = ''u2'', role = ''CUSTOMER''\<rparr> None
      \<lparr>products = [''P'' \<mapsto> \<lparr>price = 1000, active = True, stock = 4\<rparr>],
       discountCodes = Map.empty,
       orders = [\<lparr>orderId = ''o1'', orderNumber = ''CHE2611020007'', userId = ''u1'',
         items = [\<lparr>productId = ''P'', quantity = 1, item_price = 1000, item_total = 1000\<rparr>],
         subtotal = 1000, discount = 0, shipping = 5000, tax = 190, total = 6190,
         deliveryStatus = PENDING, orderNotes = None, discountCode = None,
         trackingNumber = None, estimatedDelivery = None, deliveredAt = None\<rparr>]\<rparr>
    = (Inl (Rejected 404 ''Orden no encontrada''),
      \<lparr>products = [''P'' \<mapsto> \<lparr>price = 1000, active = True, stock = 4\<rparr>],
       discountCodes = Map.empty,
       orders = [\<lparr>orderId = ''o1'', orderNumber = ''CHE2611020007'', userId = ''u1'',
         items = [\<lparr>productId = ''P'', quantity = 1, item_price = 1000, item_total = 1000\<rparr>],
         subtotal = 1000, discount = 0, shipping = 5000, tax = 190, total = 6190,
         deliveryStatus = PENDING, orderNotes = None, discountCode = None,
         trackingNumber = None, estimatedDelivery = None, deliveredAt = None\<rparr>]\<rparr>)"
  by (simp add: cancelOrder_def findOrder_def)

text \<open>
  The theorem of claim C9 at concrete inputs: the store holds the order \<open>o1\<close> of user
  \<open>u1\<close>; the customer \<open>u3\<close> asks to cancel \<open>o1\<close> with a reason, and to cancel the
  missing \<open>o7\<close>.
\<close>

theorem cancelOrder_not_owner_not_found_witness:
  "fst (cancelOrder {} ''o1'' \<lparr>callerId = ''u3'', role = ''CUSTOMER''\<rparr> (Some ''duplicada'')
      \<lparr>products = Map.empty, discountCodes = Map.empty,
       orders = [\<lparr>orderId = ''o1'', orderNumber = ''CHE2611020007'', userId = ''u1'',
         items = [], subtotal = 0, discount = 0, shipping = 5000, tax = 0, total = 5000,
         deliveryStatus = PENDING, orderNotes = None, discountCode = None,
         trackingNumber = None, estimatedDelivery = None, deliveredAt = None\<rparr>]\<rparr>)
    = Inl (Rejected 404 ''Orden no encontrada'')
   \<and> fst (cancelOrder {} ''o7'' \<lparr>callerId = ''u3'', role = ''CUSTOMER''\<rparr> (Some ''duplicada'')
      \<lparr>products = Map.empty, discountCodes = Map.empty,
       orders = [\<lparr>orderId = ''o1'', orderNumber = ''CHE2611020007'', userId = ''u1'',
         items = [], subtotal = 0, discount = 0, shipping = 5000, tax = 0, total = 5000,
         deliveryStatus = PENDING, orderNotes = None, discountCode = None,
         trackingNumber = None, estimatedDelivery = None, deliveredAt = None\<rparr>]\<rparr>)
    = Inl (Rejected 404 ''Orden no encontrada'')"
  (is "fst (cancelOrder {} ''o1'' ?caller ?reason ?db) = Inl ?e
       \<and> fst (cancelOrder {} ''o7'' ?caller ?reason ?db) = Inl ?e")
proof -
  let ?o1 = "hd (orders ?db)"
  have pre1: "distinct (map orderId (orders ?db)) \<and> ?o1 \<in> set (orders ?db)
      \<and> orderId ?o1 = ''o1'' \<and> userId ?o1 \<noteq> callerId ?caller \<and> role ?caller \<noteq> ''ADMIN''"
    by simp
  have a: "cancelOrder {} ''o1'' ?caller ?reason ?db = (Inl ?e, ?db)"
    by (rule cancelOrder_not_owner_not_found[where db = ?db and order = ?o1 and oid = "''o1''"
          and caller = ?caller and bad = "{}", THEN conjunct1, THEN mp, OF pre1])
  have pre2: "\<forall>order\<in>set (orders ?db). orderId order \<noteq> ''o7''"
    by simp
  have b: "cancelOrder {} ''o7'' ?caller ?reason ?db = (Inl ?e, ?db)"
    by (rule cancelOrder_not_owner_not_found[where db = ?db and oid = "''o7''" and bad = "{}",
          THEN conjunct2, THEN mp, OF pre2])
  from a b show ?thesis by simp
qed

section \<open>The delivery status is stored as requested\<close>

lemma find_orderId_updateOrder:
  assumes "\<And>order. orderId (f order) = orderId order"
  shows "find (\<lambda>order. orderId order = oid) (updateOrder oid' f os)
           = map_option (\<lambda>order. if orderId order = oid' then f order else order)
               (find (\<lambda>order. orderId order = oid) os)"
  unfolding updateOrder_def
  by (rule find_map_preserving) (simp add: assms)

lemma updateData_fields:
  "orderId (updateData st tn ed today order) = orderId order"
  "deliveryStatus (updateData st tn ed today order) = st"
  "deliveredAt (updateData st tn ed today order)
     = (if st = DELIVERED then Some today else deliveredAt order)"
  by (simp_all add: updateData_def Let_def split: option.splits)

text \<open>An accepted write stores the new row under its key and touches nothing else.\<close>

lemma writeOrder_accepted:
  assumes found: "find (\<lambda>order. orderId order = oid) (orders db) = Some order"
    and ok: "OrderUpdate \<notin> bad"
  shows "\<exists>db'. writeOrder bad oid (updateData st tn ed today) order db
                 = (Inr (updateData st tn ed today order), db')
           \<and> find (\<lambda>order. orderId order = oid) (orders db')
                 = Some (updateData st tn ed today order)
           \<and> products db' = products db \<and> discountCodes db' = discountCodes db"
proof -
  let ?f = "updateData st tn ed today"
  let ?db' = "db\<lparr>orders := updateOrder oid ?f (orders db)\<rparr>"
  have oid: "orderId order = oid"
    using found by (auto dest: find_Some_iff[THEN iffD1])
  have "find (\<lambda>order. orderId order = oid) (updateOrder oid ?f (orders db))
        = map_option (\<lambda>x. if orderId x = oid then ?f x else x)
            (find (\<lambda>order. orderId order = oid) (orders db))"
    by (rule find_orderId_updateOrder) (simp add: updateData_fields)
  with found oid have "find (\<lambda>order. orderId order = oid) (orders ?db') = Some (?f order)"
    by simp
  then show ?thesis using ok by (intro exI[of _ ?db']) (simp add: writeOrder_def)
qed

text \<open>
  Claim C7, as the code has it. \<^verbatim>\<open>updateDeliveryStatus\<close> checks no transition and has
  no response for an invalid one. For an order that exists, whatever its current status
  and whichever status of the enumeration is requested, when the estimated delivery (if
  the request has one) is a date and the store accepts the write, the call succeeds and
  stores the requested status; \<^verbatim>\<open>deliveredAt\<close> is set to the current time on every call that requests
  \<open>DELIVERED\<close> and is left as it was on every other call; products and codes are
  untouched. An estimated delivery that is not a date, or a write the store refuses,
  ends the call in an error with the store unchanged. A key that no order has gives
  status 404.
\<close>

theorem updateDeliveryStatus_stores_any_status:
  "(find (\<lambda>order. orderId order = oid) (orders db) = Some order
      \<and> OrderUpdate \<notin> bad \<and> estimatedDate newDate ed \<noteq> Some InvalidDate
    \<longrightarrow> (\<exists>order' db'. updateDeliveryStatus bad newDate oid st tn ed today db = (Inr order', db')
          \<and> deliveryStatus order' = st
          \<and> deliveredAt order' = (if st = DELIVERED then Some today else deliveredAt order)
          \<and> find (\<lambda>order. orderId order = oid) (orders db') = Some order'
          \<and> products db' = products db \<and> discountCodes db' = discountCodes db))
   \<and> (find (\<lambda>order. orderId order = oid) (orders db) = Some order
      \<and> (OrderUpdate \<in> bad \<or> estimatedDate newDate ed = Some InvalidDate)
    \<longrightarrow> updateDeliveryStatus bad newDate oid st tn ed today db = (Inl Thrown, db))
   \<and> (find (\<lambda>order. orderId order = oid) (orders db) = None
    \<longrightarrow> updateDeliveryStatus bad newDate oid st tn ed today db
          = (Inl (Rejected 404 ''Orden no encontrada''), db))"
proof (intro conjI impI)
  assume "find (\<lambda>order. orderId order = oid) (orders db) = None"
  then show "updateDeliveryStatus bad newDate oid st tn ed today db
          = (Inl (Rejected 404 ''Orden no encontrada''), db)"
    by (simp add: updateDeliveryStatus_def)
next
  assume "find (\<lambda>order. orderId order = oid) (orders db) = Some order
      \<and> (OrderUpdate \<in> bad \<or> estimatedDate newDate ed = Some InvalidDate)"
  then show "updateDeliveryStatus bad newDate oid st tn ed today db = (Inl Thrown, db)"
    by (auto simp: updateDeliveryStatus_def writeOrder_def split: option.splits DateValue.splits)
next
  assume a: "find (\<lambda>order. orderId order = oid) (orders db) = Some order
      \<and> OrderUpdate \<notin> bad \<and> estimatedDate newDate ed \<noteq> Some InvalidDate"
  then have found: "find (\<lambda>order. orderId order = oid) (orders db) = Some order"
    and ok: "OrderUpdate \<notin> bad" and valid: "estimatedDate newDate ed \<noteq> Some InvalidDate"
    by simp_all
  define d where "d = (case estimatedDate newDate ed of Some (ValidDate x) \<Rightarrow> Some x | _ \<Rightarrow> None)"
  have u: "updateDeliveryStatus bad newDate oid st tn ed today db
             = writeOrder bad oid (updateData st tn d today) order db"
    using found valid
    by (auto simp: updateDeliveryStatus_def d_def split: option.splits DateValue.splits)
  from writeOrder_accepted[OF found ok, of st tn d today] obtain db' where
    w: "writeOrder bad oid (updateData st tn d today) order db
          = (Inr (updateData st tn d today order), db')"
    and f: "find (\<lambda>order. orderId order = oid) (orders db') = Some (updateData st tn d today order)"
    and r: "products db' = products db" "discountCodes db' = discountCodes db"
    by (elim exE conjE)
  show "\<exists>order' db'. updateDeliveryStatus bad newDate oid st tn ed today db = (Inr order', db')
          \<and> deliveryStatus order' = st
          \<and> deliveredAt order' = (if st = DELIVERED then Some today else deliveredAt order)
          \<and> find (\<lambda>order. orderId order = oid) (orders db') = Some order'
          \<and> products db' = products db \<and> discountCodes db' = discountCodes db"
  proof (intro exI[of _ "updateData st tn d today order"] exI[of _ db'] conjI)
    show "updateDeliveryStatus bad newDate oid st tn ed today db
            = (Inr (updateData st tn d today order), db')"
      using u w by simp
    show "deliveryStatus (updateData st tn d today order) = st" by (rule updateData_fields)
    show "deliveredAt (updateData st tn d today order)
            = (if st = DELIVERED then Some today else deliveredAt order)"
      by (rule updateData_fields)
    show "find (\<lambda>order. orderId order = oid) (orders db') = Some (updateData st tn d today order)"
      by (rule f)
    show "products db' = products db" by (rule r)
    show "discountCodes db' = discountCodes db" by (rule r)
  qed
qed

text \<open>
  Against the transition rules of claim C7: the order \<open>o2\<close> is \<open>DELIVERED\<close>, with
  \<^verbatim>\<open>deliveredAt\<close> at time 50; the store refuses nothing and the requests carry no
  estimated delivery. A request for \<open>PENDING\<close> succeeds and the order is stored as \<open>PENDING\<close>: a transition out of a terminal state,
  and backwards. A second request for \<open>DELIVERED\<close>, at time 90, succeeds and sets
  \<^verbatim>\<open>deliveredAt\<close> again.
\<close>

theorem updateDeliveryStatus_leaves_DELIVERED:
  "(case updateDeliveryStatus {} (\<lambda>_. InvalidDate) ''o2'' PENDING None None
      \<lparr>getTime = 90, getFullYear = 2026, getMonth = 10, getDate = 3\<rparr>
      \<lparr>products = Map.empty, discountCodes = Map.empty,
       orders = [\<lparr>orderId = ''o2'', orderNumber = ''CHE2611020008'', userId = ''u1'',
         items = [], subtotal = 0, discount = 0, shipping = 5000, tax = 0, total = 5000,
         deliveryStatus = DELIVERED, orderNotes = None, discountCode = None,
         trackingNumber = None, estimatedDelivery = None,
         deliveredAt = Some \<lparr>getTime = 50, getFullYear = 2026, getMonth = 10, getDate = 2\<rparr>\<rparr>]\<rparr> of
      (Inr order, db') \<Rightarrow>
        deliveryStatus order = PENDING \<and> map deliveryStatus (orders db') = [PENDING]
    | (Inl e, db') \<Rightarrow> False)
   \<and> (case updateDeliveryStatus {} (\<lambda>_. InvalidDate) ''o2'' DELIVERED None None
      \<lparr>getTime = 90, getFullYear = 2026, getMonth = 10, getDate = 3\<rparr>
      \<lparr>products = Map.empty, discountCodes = Map.empty,
       orders = [\<lparr>orderId = ''o2'', orderNumber = ''CHE2611020008'', userId = ''u1'',
         items = [], subtotal = 0, discount = 0, shipping = 5000, tax = 0, total = 5000,
         deliveryStatus = DELIVERED, orderNotes = None, discountCode = None,
         trackingNumber = None, estimatedDelivery = None,
         deliveredAt = Some \<lparr>getTime = 50, getFullYear = 2026, getMonth = 10, getDate = 2\<rparr>\<rparr>]\<rparr> of
      (Inr order, db') \<Rightarrow>
        deliveredAt order = Some \<lparr>getTime = 90, getFullYear = 2026, getMonth = 10, getDate = 3\<rparr>
    | (Inl e, db') \<Rightarrow> False)"
  by (simp add: updateDeliveryStatus_def writeOrder_def updateData_def updateOrder_def Let_def)

text \<open>
  The theorem of claim C7 at concrete inputs, with a date parser that knows the one
  string \<open>2026-11-05\<close>: the shipped order \<open>o3\<close> is set to \<open>DELIVERED\<close> with a
  tracking number and that estimated delivery at time 90; the same request with the
  estimated delivery \<open>pronto\<close> ends in an error and changes nothing; and a request for
  the missing \<open>o7\<close> is rejected.
\<close>

theorem updateDeliveryStatus_stores_any_status_witness:
  "(case updateDeliveryStatus {}
      (\<lambda>s. if s = ''2026-11-05''
           then ValidDate \<lparr>getTime = 300, getFullYear = 2026, getMonth = 10, getDate = 5\<rparr>
           else InvalidDate)
      ''o3'' DELIVERED (Some ''TRK1'') (Some ''2026-11-05'')
      \<lparr>getTime = 90, getFullYear = 2026, getMonth = 10, getDate = 3\<rparr>
      \<lparr>products = Map.empty, discountCodes = Map.empty,
       orders = [\<lparr>orderId = ''o3'', orderNumber = ''CHE2611020009'', userId = ''u1'',
         items = [], subtotal = 0, discount = 0, shipping = 5000, tax = 0, total = 5000,
         deliveryStatus = SHIPPED, orderNotes = None, discountCode = None,
         trackingNumber = None, estimatedDelivery = None, deliveredAt = None\<rparr>]\<rparr> of
      (Inr order, db') \<Rightarrow>
        deliveryStatus order = DELIVERED
        \<and> deliveredAt order = Some \<lparr>getTime = 90, getFullYear = 2026, getMonth = 10, getDate = 3\<rparr>
        \<and> find (\<lambda>order. orderId order = ''o3'') (orders db') = Some order
    | (Inl e, db') \<Rightarrow> False)
   \<and> updateDeliveryStatus {}
      (\<lambda>s. if s = ''2026-11-05''
           then ValidDate \<lparr>getTime = 300, getFullYear = 2026, getMonth = 10, getDate = 5\<rparr>
           else InvalidDate)
      ''o3'' DELIVERED (Some ''TRK1'') (Some ''pronto'')
      \<lparr>getTime = 90, getFullYear = 2026, getMonth = 10, getDate = 3\<rparr>
      \<lparr>products = Map.empty, discountCodes = Map.empty,
       orders = [\<lparr>orderId = ''o3'', orderNumber = ''CHE2611020009'', userId = ''u1'',
         items = [], subtotal = 0, discount = 0, shipping = 5000, tax = 0, total = 5000,
         deliveryStatus = SHIPPED, orderNotes = None, discountCode = None,
         trackingNumber = None, estimatedDelivery = None, deliveredAt = None\<rparr>]\<rparr>
     = (Inl Thrown,
      \<lparr>products = Map.empty, discountCodes = Map.empty,
       orders = [\<lparr>orderId = ''o3'', orderNumber = ''CHE2611020009'', userId = ''u1'',
         items = [], subtotal = 0, discount = 0, shipping = 5000, tax = 0, total = 5000,
         deliveryStatus = SHIPPED, orderNotes = None, discountCode = None,
         trackingNumber = None, estimatedDelivery = None, deliveredAt = None\<rparr>]\<rparr>)
   \<and> fst (updateDeliveryStatus {}
      (\<lambda>s. if s = ''2026-11-05''
           then ValidDate \<lparr>getTime = 300, getFullYear = 2026, getMonth = 10, getDate = 5\<rparr>
           else InvalidDate)
      ''o7'' DELIVERED (Some ''TRK1'') (Some ''2026-11-05'')
      \<lparr>getTime = 90, getFullYear = 2026, getMonth = 10, getDate = 3\<rparr>
      \<lparr>products = Map.empty, discountCodes = Map.empty,
       orders = [\<lparr>orderId = ''o3'', orderNumber = ''CHE2611020009'', userId = ''u1'',
         items = [], subtotal = 0, discount = 0, shipping = 5000, tax = 0, total = 5000,
         deliveryStatus = SHIPPED, orderNotes = None, discountCode = None,
         trackingNumber = None, estimatedDelivery = None, deliveredAt = None\<rparr>]\<rparr>)
     = Inl (Rejected 404 ''Orden no encontrada'')"
  (is "(case updateDeliveryStatus {} ?nd ''o3'' DELIVERED ?tn ?ed ?today ?db of
         (Inr order, db') \<Rightarrow> ?Q order db' | (Inl e, db') \<Rightarrow> False)
       \<and> updateDeliveryStatus {} ?nd ''o3'' DELIVERED ?tn ?bad_ed ?today ?db = (Inl Thrown, ?db)
       \<and> fst (updateDeliveryStatus {} ?nd ''o7'' DELIVERED ?tn ?ed ?today ?db) = Inl ?e")
proof -
  let ?o3 = "hd (orders ?db)"
  have pre1: "find (\<lambda>order. orderId order = ''o3'') (orders ?db) = Some ?o3
      \<and> OrderUpdate \<notin> ({} :: DbWrite set) \<and> estimatedDate ?nd ?ed \<noteq> Some InvalidDate"
    by simp
  from updateDeliveryStatus_stores_any_status[where oid = "''o3''" and db = ?db and order = ?o3
      and st = DELIVERED and tn = ?tn and ed = ?ed and today = ?today and bad = "{}"
      and newDate = ?nd,
      THEN conjunct1, THEN mp, OF pre1]
  obtain order' db' where
    c: "updateDeliveryStatus {} ?nd ''o3'' DELIVERED ?tn ?ed ?today ?db = (Inr order', db')"
    and q: "deliveryStatus order' = DELIVERED"
      "deliveredAt order' = (if DELIVERED = DELIVERED then Some ?today else deliveredAt ?o3)"
      "find (\<lambda>order. orderId order = ''o3'') (orders db') = Some order'"
    by (elim exE conjE)
  have a: "case updateDeliveryStatus {} ?nd ''o3'' DELIVERED ?tn ?ed ?today ?db of
         (Inr order, db') \<Rightarrow> ?Q order db' | (Inl e, db') \<Rightarrow> False"
    using q by (simp add: c)
  have pre2: "find (\<lambda>order. orderId order = ''o3'') (orders ?db) = Some ?o3
      \<and> (OrderUpdate \<in> ({} :: DbWrite set) \<or> estimatedDate ?nd ?bad_ed = Some InvalidDate)"
    by simp
  have b: "updateDeliveryStatus {} ?nd ''o3'' DELIVERED ?tn ?bad_ed ?today ?db = (Inl Thrown, ?db)"
    by (rule updateDeliveryStatus_stores_any_status[where oid = "''o3''" and db = ?db
          and order = ?o3 and bad = "{}" and newDate = ?nd and ed = ?bad_ed,
          THEN conjunct2, THEN conjunct1, THEN mp, OF pre2])
  have pre3: "find (\<lambda>order. orderId order = ''o7'') (orders ?db) = None"
    by simp
  have c3: "updateDeliveryStatus {} ?nd ''o7'' DELIVERED ?tn ?ed ?today ?db = (Inl ?e, ?db)"
    by (rule updateDeliveryStatus_stores_any_status[where oid = "''o7''" and db = ?db,
          THEN conjunct2, THEN conjunct2, THEN mp, OF pre3])
  from c3 have c3': "fst (updateDeliveryStatus {} ?nd ''o7'' DELIVERED ?tn ?ed ?today ?db) = Inl ?e"
    by simp
  from a b c3' show ?thesis by (intro conjI)
qed

end
